theory Spec2Isabelle
  imports Complex_Main
begin

section \<open>JavaScript values\<close>

text \<open>
  Both source files are TypeScript, and the values the claims are about cross an
  untyped boundary: the settings come out of \<^verbatim>\<open>JSON.parse\<close> and the GeoJSON data is
  declared \<^verbatim>\<open>any\<close>. They are therefore modelled as JavaScript values, not as the
  interfaces the source declares for them.

  A number is an IEEE double. The code never computes with one: it copies numbers, tests
  them for truthiness and serialises them. A finite double is modelled by the real number
  it stands for (\<open>-0\<close> and \<open>0\<close> coincide; both are falsy and both print as \<open>0\<close>).
\<close>

datatype number = Fin real | NaN | PosInfinity | NegInfinity

text \<open>
  Objects are property lists in insertion order. An array has its elements and, like any
  object, may be given further own properties; so may a function. The only function
  value that the service can meet is a built-in method found on a prototype.
\<close>

datatype jsval =
    JUndefined
  | JNull
  | JBool bool
  | JNum number
  | JStr string
  | JObj "(string \<times> jsval) list"
  | JArr "jsval list" "(string \<times> jsval) list"
  | JFun string "(string \<times> jsval) list"

datatype error = TypeError | SyntaxError | Other string

text \<open>Truthiness, as \<^verbatim>\<open>if (v)\<close>, \<^verbatim>\<open>!v\<close>, \<^verbatim>\<open>v ? a : b\<close> and \<^verbatim>\<open>v || w\<close> test it.\<close>

fun truthy :: "jsval \<Rightarrow> bool" where
  "truthy JUndefined = False"
| "truthy JNull = False"
| "truthy (JBool b) = b"
| "truthy (JNum n) = (n \<noteq> NaN \<and> n \<noteq> Fin 0)"
| "truthy (JStr s) = (s \<noteq> [])"
| "truthy (JObj ps) = True"
| "truthy (JArr xs ps) = True"
| "truthy (JFun f ps) = True"

text \<open>\<^verbatim>\<open>a || b\<close> on two values that are already evaluated.\<close>

definition js_or :: "jsval \<Rightarrow> jsval \<Rightarrow> jsval" where
  "js_or a b = (if truthy a then a else b)"

definition own_prop :: "(string \<times> jsval) list \<Rightarrow> string \<Rightarrow> jsval" where
  "own_prop ps k = (case map_of ps k of None \<Rightarrow> JUndefined | Some v \<Rightarrow> v)"

text \<open>
  The property read \<^verbatim>\<open>v.k\<close>, for the property names the two files read:
  \<^verbatim>\<open>location\<close>, \<^verbatim>\<open>zoom\<close>, \<^verbatim>\<open>properties\<close>, \<^verbatim>\<open>style\<close>, \<^verbatim>\<open>fill\<close>, \<^verbatim>\<open>weight\<close>,
  \<^verbatim>\<open>color\<close>, \<^verbatim>\<open>fillOpacity\<close> and \<^verbatim>\<open>dashArray\<close>. Reading a property of \<^verbatim>\<open>null\<close> or
  \<^verbatim>\<open>undefined\<close> throws a TypeError; a primitive has none of these properties; an object
  has those it owns. Of the names above only \<^verbatim>\<open>fill\<close> is inherited from a prototype, by
  arrays (\<^verbatim>\<open>Array.prototype.fill\<close>). Any other name is read as an own property; the
  indices and the \<^verbatim>\<open>length\<close> of an array, which no assignment of the service changes,
  are not among the properties modelled.
\<close>

fun js_get :: "jsval \<Rightarrow> string \<Rightarrow> error + jsval" where
  "js_get JUndefined k = Inl TypeError"
| "js_get JNull k = Inl TypeError"
| "js_get (JBool b) k = Inr JUndefined"
| "js_get (JNum n) k = Inr JUndefined"
| "js_get (JStr s) k = Inr JUndefined"
| "js_get (JObj ps) k = Inr (own_prop ps k)"
| "js_get (JArr xs ps) k =
     Inr (case map_of ps k of
            Some v \<Rightarrow> v
          | None \<Rightarrow> if k = ''fill'' then JFun ''Array.prototype.fill'' [] else JUndefined)"
| "js_get (JFun f ps) k = Inr (own_prop ps k)"

text \<open>
  Setting a property of an alist: an existing key keeps its place, a new key goes last.
\<close>

fun set_prop :: "string \<Rightarrow> jsval \<Rightarrow> (string \<times> jsval) list \<Rightarrow> (string \<times> jsval) list" where
  "set_prop k v [] = [(k, v)]"
| "set_prop k v (p # ps) = (if fst p = k then (k, v) # ps else p # set_prop k v ps)"

text \<open>
  The assignment \<^verbatim>\<open>o.k = v\<close>; the result is the object after it. Class bodies are
  strict code, where assigning a property to a primitive throws a TypeError as it does
  for \<^verbatim>\<open>null\<close> and \<^verbatim>\<open>undefined\<close>.
\<close>

fun js_set :: "jsval \<Rightarrow> string \<Rightarrow> jsval \<Rightarrow> error + jsval" where
  "js_set (JObj ps) k v = Inr (JObj (set_prop k v ps))"
| "js_set (JArr xs ps) k v = Inr (JArr xs (set_prop k v ps))"
| "js_set (JFun f ps) k v = Inr (JFun f (set_prop k v ps))"
| "js_set JUndefined k v = Inl TypeError"
| "js_set JNull k v = Inl TypeError"
| "js_set (JBool b) k v = Inl TypeError"
| "js_set (JNum n) k v = Inl TypeError"
| "js_set (JStr s) k v = Inl TypeError"

definition is_object :: "jsval \<Rightarrow> bool" where
  "is_object v = (case v of JObj ps \<Rightarrow> True | JArr xs ps \<Rightarrow> True | JFun f ps \<Rightarrow> True | _ \<Rightarrow> False)"

definition nullish :: "jsval \<Rightarrow> bool" where
  "nullish v = (case v of JUndefined \<Rightarrow> True | JNull \<Rightarrow> True | _ \<Rightarrow> False)"

section \<open>JSON and the storage entry\<close>

text \<open>
  \<^verbatim>\<open>localStorage\<close> holds strings. The service looks at a stored string in two ways only:
  it tests it for truthiness and it hands it to \<^verbatim>\<open>JSON.parse\<close>. A stored string is
  therefore modelled by what those two see: either a string that is not a JSON text, or
  a JSON text, given by the value it denotes (\<open>JSONText JNull\<close> is the four characters
  \<^verbatim>\<open>null\<close>). The empty string is not a JSON text.
\<close>

datatype stored_text = NotJSON string | JSONText jsval

fun text_truthy :: "stored_text \<Rightarrow> bool" where
  "text_truthy (NotJSON s) = (s \<noteq> [])"
| "text_truthy (JSONText v) = True"

fun JSON_parse :: "stored_text \<Rightarrow> error + jsval" where
  "JSON_parse (NotJSON s) = Inl SyntaxError"
| "JSON_parse (JSONText v) = Inr v"

text \<open>
  The JSON value that \<^verbatim>\<open>JSON.stringify\<close> writes for a value, \<open>None\<close> where it returns
  \<^verbatim>\<open>undefined\<close>: non-finite numbers become \<^verbatim>\<open>null\<close>, properties whose value is
  \<^verbatim>\<open>undefined\<close> or a function are left out, such elements of an array become
  \<^verbatim>\<open>null\<close>, and an array's non-index properties are left out. The values that the
  service serialises come from \<^verbatim>\<open>JSON.parse\<close>, the defaults and the reported
  coordinates; none has a \<^verbatim>\<open>toJSON\<close> method.
\<close>

primrec to_json :: "jsval \<Rightarrow> jsval option" where
  "to_json JUndefined = None"
| "to_json JNull = Some JNull"
| "to_json (JBool b) = Some (JBool b)"
| "to_json (JNum n) = Some (case n of Fin r \<Rightarrow> JNum (Fin r) | _ \<Rightarrow> JNull)"
| "to_json (JStr s) = Some (JStr s)"
| "to_json (JObj ps) =
     Some (JObj (List.map_filter (\<lambda>(k, j). map_option (Pair k) j)
                   (map (map_prod id to_json) ps)))"
| "to_json (JArr xs ps) =
     Some (JArr (map (\<lambda>j. case j of None \<Rightarrow> JNull | Some v \<Rightarrow> v) (map to_json xs)) [])"
| "to_json (JFun f ps) = None"

definition JSON_stringify :: "jsval \<Rightarrow> stored_text option" where
  "JSON_stringify v = map_option JSONText (to_json v)"

text \<open>
  \<^verbatim>\<open>localStorage.setItem(key, x)\<close> stores the string form of \<open>x\<close>; for \<^verbatim>\<open>undefined\<close>
  that is the nine characters \<^verbatim>\<open>undefined\<close>.
\<close>

definition setItem ::
  "string \<Rightarrow> stored_text option \<Rightarrow> (string \<rightharpoonup> stored_text) \<Rightarrow> (string \<rightharpoonup> stored_text)" where
  "setItem key x storage =
     storage(key \<mapsto> (case x of None \<Rightarrow> NotJSON ''undefined'' | Some t \<Rightarrow> t))"

section \<open>The browser and Leaflet, as the service uses them\<close>

text \<open>
  Leaflet, the console and \<^verbatim>\<open>localStorage\<close> are the service's collaborators. They are
  modelled by what the service's calls leave behind: a console entry, a stored string, a
  map object with its view and its layers, a marker with its position. A Leaflet call
  that returns records its arguments, and an animated \<^verbatim>\<open>flyTo\<close> is taken at the view
  it ends on.

  A Leaflet call can also throw: on a location with a coordinate that is not a number, on
  a map whose view was never set, on an element that has a map already. Whether it does
  is decided inside Leaflet and the browser, not by the service, so the state of the
  service carries it as a given (\<open>Leaflet_throws\<close> below), for each of the calls that
  take a location: \<^verbatim>\<open>L.map\<close>, \<^verbatim>\<open>L.marker(...).addTo\<close>, \<^verbatim>\<open>setLatLng\<close> and
  \<^verbatim>\<open>flyTo\<close>, with the object the call is made on and the arguments it is given. A call
  that throws is taken to leave the Leaflet objects as they were.
\<close>

datatype log = ConsoleError string | ConsoleWarn string

type_synonym element = string

record TileLayerOptions =
  maxZoom :: nat
  minZoom :: nat
  attribution :: string

record TileLayer =
  url :: string
  options :: TileLayerOptions

record MarkerOptions =
  title :: string
  iconUrl :: string
  iconSize :: "nat \<times> nat"
  iconAnchor :: "nat \<times> nat"

record L_Marker =
  latlng :: jsval
  marker_options :: MarkerOptions

text \<open>
  A layer of a map: a tile layer, the marker (the one object \<^verbatim>\<open>userLocation\<close> refers to)
  or a GeoJSON layer with its data and the path options given as its \<^verbatim>\<open>style\<close>.
\<close>

datatype layer = TileLayerOn TileLayer | MarkerOn | GeoJSONOn jsval jsval

text \<open>
  A map object. \<open>map_id\<close> is its identity: the number of maps that \<^verbatim>\<open>L.map\<close> had
  constructed before it.
\<close>

record L_Map =
  map_id :: nat
  container :: element
  center :: jsval
  view_zoom :: jsval
  layers :: "layer list"

definition L_map :: "nat \<Rightarrow> element \<Rightarrow> jsval \<Rightarrow> jsval \<Rightarrow> L_Map" where
  "L_map i el c z = \<lparr>map_id = i, container = el, center = c, view_zoom = z, layers = []\<rparr>"

definition addTo :: "layer \<Rightarrow> L_Map \<Rightarrow> L_Map" where
  "addTo l m = m\<lparr>layers := layers m @ [l]\<rparr>"

definition flyTo :: "jsval \<Rightarrow> jsval \<Rightarrow> L_Map \<Rightarrow> L_Map" where
  "flyTo c z m = m\<lparr>center := c, view_zoom := z\<rparr>"

definition L_marker :: "jsval \<Rightarrow> MarkerOptions \<Rightarrow> L_Marker" where
  "L_marker c opts = \<lparr>latlng = c, marker_options = opts\<rparr>"

definition setLatLng :: "jsval \<Rightarrow> L_Marker \<Rightarrow> L_Marker" where
  "setLatLng c mk = mk\<lparr>latlng := c\<rparr>"

text \<open>
  The calls that can throw: \<^verbatim>\<open>L.map(el, {center: c, zoom: z})\<close>,
  \<^verbatim>\<open>L.marker(c, ...).addTo(m)\<close>, \<^verbatim>\<open>mk.setLatLng(c)\<close> and \<^verbatim>\<open>m.flyTo(c, z, ...)\<close>.
\<close>

datatype Leaflet_call =
    Call_map element jsval jsval
  | Call_marker jsval L_Map
  | Call_setLatLng L_Marker jsval
  | Call_flyTo L_Map jsval jsval

text \<open>
  The browser of the examples is the strictest one: its Leaflet takes a call that is given
  a location that is an array of two finite numbers and a zoom that is a finite number,
  \<^verbatim>\<open>flyTo\<close> only on a map whose view is set to such values, and throws on every other
  call. A real Leaflet throws on some of these other calls only (\<^verbatim>\<open>L.map\<close> leaves the
  view unset when the centre is missing, and it is \<^verbatim>\<open>flyTo\<close> that throws then).
\<close>

definition finite_number :: "jsval \<Rightarrow> bool" where
  "finite_number v = (case v of JNum (Fin r) \<Rightarrow> True | _ \<Rightarrow> False)"

definition usable_latlng :: "jsval \<Rightarrow> bool" where
  "usable_latlng v =
     (case v of
        JArr xs ps \<Rightarrow> (case xs of [a, b] \<Rightarrow> finite_number a \<and> finite_number b | _ \<Rightarrow> False)
      | _ \<Rightarrow> False)"

definition has_view :: "L_Map \<Rightarrow> bool" where
  "has_view m = (usable_latlng (center m) \<and> finite_number (view_zoom m))"

fun Leaflet_checks :: "Leaflet_call \<Rightarrow> bool" where
  "Leaflet_checks (Call_map el c z) = (\<not> (usable_latlng c \<and> finite_number z))"
| "Leaflet_checks (Call_marker c m) = (\<not> usable_latlng c)"
| "Leaflet_checks (Call_setLatLng mk c) = (\<not> usable_latlng c)"
| "Leaflet_checks (Call_flyTo m c z) = (\<not> (has_view m \<and> usable_latlng c \<and> finite_number z))"

text \<open>What Leaflet throws.\<close>

definition LeafletError :: error where
  "LeafletError = Other ''Leaflet''"

text \<open>
  An operation either returns, with a result and the state it leaves, or throws, with the
  error and the state at the throw.
\<close>

datatype ('a, 's) outcome = Returns 'a 's | Throws error 's

fun state_of :: "('a, 's) outcome \<Rightarrow> 's" where
  "state_of (Returns x s) = s"
| "state_of (Throws e s) = s"

fun returned :: "('a, 's) outcome \<Rightarrow> 'a option" where
  "returned (Returns x s) = Some x"
| "returned (Throws e s) = None"

section \<open>The map service (map.service.ts)\<close>

text \<open>
  The fields of \<^verbatim>\<open>MapService\<close> (\<open>the_map\<close> is the field \<^verbatim>\<open>map\<close>), followed by the
  collaborators' state: the storage, the console, the number of maps and of markers that
  Leaflet has constructed, the errors that left the geolocation subscription with no
  handler to take them, and the calls on which the browser's Leaflet throws.
\<close>

record MapService =
  mapSettings :: jsval
  the_map :: "L_Map option"
  userLocation :: "L_Marker option"
  localStorage :: "string \<rightharpoonup> stored_text"
  console :: "log list"
  maps_created :: nat
  markers_created :: nat
  unhandled :: "error list"
  Leaflet_throws :: "Leaflet_call \<Rightarrow> bool"

definition defaultMapSettings :: jsval where
  "defaultMapSettings =
     JObj [(''location'', JArr [JNum (Fin 31.25271960741618), JNum (Fin 100.70475680715587)] []),
           (''zoom'', JNum (Fin 19))]"

definition tileLayer :: TileLayer where
  "tileLayer =
     \<lparr>url = ''https://{s}.tile.openstreetmap.org/{z}/{x}/{y}.png'',
      options = \<lparr>maxZoom = 19, minZoom = 3, attribution = ''OpenStreetMap''\<rparr>\<rparr>"

definition console_error :: "string \<Rightarrow> MapService \<Rightarrow> MapService" where
  "console_error msg s = s\<lparr>console := console s @ [ConsoleError msg]\<rparr>"

definition console_warn :: "string \<Rightarrow> MapService \<Rightarrow> MapService" where
  "console_warn msg s = s\<lparr>console := console s @ [ConsoleWarn msg]\<rparr>"

text \<open>
  Lines 35 to 44 of \<^verbatim>\<open>initializeMapSettings\<close>: the stored settings. The rest of the
  function subscribes to the geolocation service; what the subscription does when the
  service answers is \<open>getLocation_next\<close> and \<open>getLocation_error\<close> below.
\<close>

definition initializeMapSettings :: "MapService \<Rightarrow> MapService" where
  "initializeMapSettings s =
     (case localStorage s ''mapSettings'' of
        None \<Rightarrow> s
      | Some storedSettings \<Rightarrow>
          if text_truthy storedSettings then
            (case JSON_parse storedSettings of
               Inr v \<Rightarrow> s\<lparr>mapSettings := v\<rparr>
             | Inl e \<Rightarrow>
                 (console_error ''Error parsing map settings from localStorage:'' s)
                   \<lparr>mapSettings := defaultMapSettings\<rparr>)
          else s)"

text \<open>
  The constructor: the field initialisers, then \<^verbatim>\<open>initializeMapSettings\<close>. The
  service it makes is in the browser of the examples; a service in any other browser is
  a state with another \<open>Leaflet_throws\<close>.
\<close>

definition new_MapService :: "(string \<rightharpoonup> stored_text) \<Rightarrow> MapService" where
  "new_MapService storage =
     initializeMapSettings
       \<lparr>mapSettings = defaultMapSettings, the_map = None, userLocation = None,
        localStorage = storage, console = [], maps_created = 0, markers_created = 0,
        unhandled = [], Leaflet_throws = Leaflet_checks\<rparr>"

definition markerOptions :: MarkerOptions where
  "markerOptions =
     \<lparr>title = ''You are here'', iconUrl = ''/assets/images/location-icon.png'',
      iconSize = (32, 32), iconAnchor = (16, 32)\<rparr>"

text \<open>
  \<^verbatim>\<open>renderLocationMarker\<close>. The location is read where the marker is placed and again
  for \<^verbatim>\<open>flyTo\<close>; nothing between the two reads changes the settings, so the model
  reads it once. Where the call that places the marker throws, nothing has changed; where
  \<^verbatim>\<open>flyTo\<close> throws, the marker has been placed. \<open>m1\<close> is the map as the marker's
  call leaves it, the one \<^verbatim>\<open>flyTo\<close> is called on.
\<close>

definition renderLocationMarker :: "MapService \<Rightarrow> (unit, MapService) outcome" where
  "renderLocationMarker s =
     (case the_map s of
        None \<Rightarrow> Returns () (console_warn ''Map not initialized'' s)
      | Some m \<Rightarrow>
          (case js_get (mapSettings s) ''location'' of
             Inl e \<Rightarrow> Throws e s
           | Inr loc \<Rightarrow>
               (case (case userLocation s of
                        Some mk \<Rightarrow>
                          if Leaflet_throws s (Call_setLatLng mk loc) then Throws LeafletError s
                          else Returns m (s\<lparr>userLocation := Some (setLatLng loc mk)\<rparr>)
                      | None \<Rightarrow>
                          if Leaflet_throws s (Call_marker loc m) then Throws LeafletError s
                          else Returns (addTo MarkerOn m)
                                 (s\<lparr>userLocation := Some (L_marker loc markerOptions),
                                    the_map := Some (addTo MarkerOn m),
                                    markers_created := Suc (markers_created s)\<rparr>)) of
                  Throws e s1 \<Rightarrow> Throws e s1
                | Returns m1 s1 \<Rightarrow>
                    (case js_get (mapSettings s1) ''zoom'' of
                       Inl e \<Rightarrow> Throws e s1
                     | Inr z \<Rightarrow>
                         if Leaflet_throws s1 (Call_flyTo m1 loc z) then Throws LeafletError s1
                         else Returns () (s1\<lparr>the_map := Some (flyTo loc z m1)\<rparr>)))))"

text \<open>
  \<^verbatim>\<open>renderMap\<close>. Where \<^verbatim>\<open>L.map\<close> throws, the field \<^verbatim>\<open>map\<close> is not assigned; where
  \<^verbatim>\<open>renderLocationMarker\<close> throws, the map has been built and stays.
\<close>

definition renderMap :: "element option \<Rightarrow> MapService \<Rightarrow> (unit, MapService) outcome" where
  "renderMap element s =
     (case element of
        None \<Rightarrow> Returns () (console_error ''Map element not found'' s)
      | Some el \<Rightarrow>
          (case js_get (mapSettings s) ''location'' of
             Inl e \<Rightarrow> Throws e s
           | Inr c \<Rightarrow>
               (case js_get (mapSettings s) ''zoom'' of
                  Inl e \<Rightarrow> Throws e s
                | Inr z \<Rightarrow>
                    if Leaflet_throws s (Call_map el c z) then Throws LeafletError s
                    else renderLocationMarker
                           (s\<lparr>the_map := Some (addTo (TileLayerOn tileLayer)
                                                (L_map (maps_created s) el c z)),
                              maps_created := Suc (maps_created s)\<rparr>))))"

text \<open>
  \<^verbatim>\<open>getMap\<close> returns \<^verbatim>\<open>of(this.map)\<close>: the result is the map the field holds at
  the return, \<open>None\<close> for \<^verbatim>\<open>undefined\<close>.
\<close>

definition getMap :: "element option \<Rightarrow> MapService \<Rightarrow> (L_Map option, MapService) outcome" where
  "getMap element s =
     (case the_map s of
        None \<Rightarrow>
          (case renderMap element s of
             Throws e s' \<Rightarrow> Throws e s'
           | Returns u s' \<Rightarrow> Returns (the_map s') s')
      | Some m \<Rightarrow> Returns (Some m) s)"

definition saveMapSettings :: "MapService \<Rightarrow> MapService" where
  "saveMapSettings s =
     s\<lparr>localStorage := setItem ''mapSettings'' (JSON_stringify (mapSettings s)) (localStorage s)\<rparr>"

definition useStoredOrDefaultLocation :: "MapService \<Rightarrow> (unit, MapService) outcome" where
  "useStoredOrDefaultLocation s =
     (case js_get (mapSettings s) ''location'' of
        Inl e \<Rightarrow> Throws e s
      | Inr loc \<Rightarrow>
          (case (if truthy loc then Inr loc else js_get defaultMapSettings ''location'') of
             Inl e \<Rightarrow> Throws e s
           | Inr v \<Rightarrow>
               (case js_set (mapSettings s) ''location'' v of
                  Inl e \<Rightarrow> Throws e s
                | Inr ms \<Rightarrow> Returns () (s\<lparr>mapSettings := ms\<rparr>))))"

text \<open>What the geolocation collaborator reports: a position, or \<^verbatim>\<open>null\<close> (\<open>None\<close>).\<close>

record Position =
  lat :: number
  lng :: number

text \<open>The function given to \<^verbatim>\<open>map\<close> in the subscription (lines 49 to 59).\<close>

definition on_position :: "Position option \<Rightarrow> MapService \<Rightarrow> (unit, MapService) outcome" where
  "on_position position s =
     (case position of
        Some p \<Rightarrow>
          (case js_set (mapSettings s) ''location'' (JArr [JNum (lat p), JNum (lng p)] []) of
             Inl e \<Rightarrow> Throws e s
           | Inr ms \<Rightarrow> renderLocationMarker (saveMapSettings (s\<lparr>mapSettings := ms\<rparr>)))
      | None \<Rightarrow>
          useStoredOrDefaultLocation
            (console_warn ''No position available, using stored or default settings'' s))"

text \<open>
  The function given to \<^verbatim>\<open>catchError\<close> (lines 60 to 64). It takes an error of the
  geolocation observable and also an error thrown by \<open>on_position\<close>, which stands
  before it in the pipe. An error it throws itself reaches \<^verbatim>\<open>subscribe()\<close>, which was
  given no error handler.
\<close>

definition on_error :: "error \<Rightarrow> MapService \<Rightarrow> MapService" where
  "on_error err s =
     (case useStoredOrDefaultLocation (console_error ''Error fetching geolocation:'' s) of
        Returns u s' \<Rightarrow> s'
      | Throws e s' \<Rightarrow> s'\<lparr>unhandled := unhandled s' @ [e]\<rparr>)"

definition getLocation_next :: "Position option \<Rightarrow> MapService \<Rightarrow> MapService" where
  "getLocation_next position s =
     (case on_position position s of
        Returns u s' \<Rightarrow> s'
      | Throws e s' \<Rightarrow> on_error e s')"

definition getLocation_error :: "error \<Rightarrow> MapService \<Rightarrow> MapService" where
  "getLocation_error err s = on_error err s"

subsection \<open>GeoJSON overlays\<close>

definition bind_get :: "error + 'a \<Rightarrow> ('a \<Rightarrow> error + 'b) \<Rightarrow> error + 'b" where
  "bind_get r f = (case r of Inl e \<Rightarrow> Inl e | Inr v \<Rightarrow> f v)"

text \<open>The optional chain \<^verbatim>\<open>v?.k\<close>.\<close>

definition js_get_opt :: "jsval \<Rightarrow> string \<Rightarrow> error + jsval" where
  "js_get_opt v k = (if nullish v then Inr JUndefined else js_get v k)"

definition defaultStyle :: jsval where
  "defaultStyle =
     JObj [(''fillColor'', JStr ''#FFFFFF''), (''weight'', JNum (Fin 2)),
           (''opacity'', JNum (Fin 1)), (''color'', JStr ''black''),
           (''dashArray'', JStr ''''), (''fillOpacity'', JNum (Fin 0.7))]"

text \<open>
  \<^verbatim>\<open>getStyles\<close>. In the first branch of the conditional \<^verbatim>\<open>feature.properties.style\<close>
  is read again for each field; it is the value the condition found.
\<close>

definition getStyles :: "jsval \<Rightarrow> error + jsval" where
  "getStyles feature =
     bind_get (js_get feature ''properties'') (\<lambda>properties.
     bind_get (js_get_opt properties ''style'') (\<lambda>style.
       if truthy style then
         bind_get (js_get style ''fill'') (\<lambda>fill.
         bind_get (js_get defaultStyle ''fillColor'') (\<lambda>default_fillColor.
         bind_get (js_get style ''weight'') (\<lambda>weight.
         bind_get (js_get defaultStyle ''weight'') (\<lambda>default_weight.
         bind_get (js_get style ''color'') (\<lambda>color.
         bind_get (js_get defaultStyle ''color'') (\<lambda>default_color.
         bind_get (js_get style ''fillOpacity'') (\<lambda>fillOpacity.
         bind_get (js_get defaultStyle ''fillOpacity'') (\<lambda>default_fillOpacity.
         bind_get (js_get style ''dashArray'') (\<lambda>dashArray.
         bind_get (js_get defaultStyle ''dashArray'') (\<lambda>default_dashArray.
           Inr (JObj [(''fillColor'', js_or fill default_fillColor),
                      (''weight'', js_or weight default_weight),
                      (''color'', js_or color default_color),
                      (''fillOpacity'', js_or fillOpacity default_fillOpacity),
                      (''dashArray'', js_or dashArray default_dashArray)])))))))))))
       else Inr defaultStyle))"

text \<open>
  \<^verbatim>\<open>renderGeoJson\<close>: the \<^verbatim>\<open>style\<close> option it gives to \<^verbatim>\<open>L.geoJSON\<close> is the object
  that \<^verbatim>\<open>getStyles(data)\<close> returns.
\<close>

definition renderGeoJson :: "jsval \<Rightarrow> MapService \<Rightarrow> (unit, MapService) outcome" where
  "renderGeoJson data s =
     (case the_map s of
        Some m \<Rightarrow>
          (case getStyles data of
             Inl e \<Rightarrow> Throws e s
           | Inr st \<Rightarrow> Returns () (s\<lparr>the_map := Some (addTo (GeoJSONOn data st) m)\<rparr>))
      | None \<Rightarrow> Returns () (console_warn ''Map not initialized'' s))"

section \<open>The map page (the component MapPage)\<close>

text \<open>
  The page's fields, followed by what it touches in the browser. \<open>map_handle\<close> is the
  field \<^verbatim>\<open>map\<close>: the identity of the map object it refers to, \<open>None\<close> for
  \<^verbatim>\<open>undefined\<close>. OSMBuildings is a third-party script: its constructor is modelled as
  making a new overlay object, which it puts on the map it is given, \<^verbatim>\<open>load\<close> as
  recording the data URL and returning the overlay, and \<^verbatim>\<open>remove\<close> as taking the
  overlay off the map. \<open>overlay_id\<close> is the identity of an overlay: the number of
  overlays constructed before it.
\<close>

record osmbSettings_t =
  osmb_zoom :: nat
  effects :: "string list"

definition osmbSettings :: osmbSettings_t where
  "osmbSettings = \<lparr>osmb_zoom = 19, effects = [''shadows'', ''bloom'']\<rparr>"

record OSMBuildings =
  overlay_id :: nat
  overlay_map :: "nat option"
  overlay_settings :: osmbSettings_t
  data_url :: "string option"

datatype reason = Reason string | Thrown error

record MapPage =
  mapService :: MapService
  map_handle :: "nat option"
  osmb :: "OSMBuildings option"
  OSMBuildings_defined :: bool
  overlays_created :: nat
  overlays_on_map :: "nat set"
  map_element :: "element option"
  buttons :: "element list"
  active :: "element set"
  scripts :: "string list"
  rejections :: "reason list"

text \<open>
  \<open>OSMBuildings_defined\<close>: whether \<^verbatim>\<open>window.OSMBuildings\<close> is there, which it is once
  the script has loaded. \<open>map_element\<close> is \<^verbatim>\<open>document.getElementById('map')\<close>,
  \<open>buttons\<close> is \<^verbatim>\<open>document.querySelectorAll('button')\<close>, \<open>active\<close> are the elements
  whose class list has \<^verbatim>\<open>active\<close>, \<open>scripts\<close> the script elements appended to the body,
  and \<open>rejections\<close> the promise rejections that no handler takes.
\<close>

definition new_OSMBuildings :: "nat \<Rightarrow> nat option \<Rightarrow> osmbSettings_t \<Rightarrow> OSMBuildings" where
  "new_OSMBuildings i m settings =
     \<lparr>overlay_id = i, overlay_map = m, overlay_settings = settings, data_url = None\<rparr>"

definition load :: "string \<Rightarrow> OSMBuildings \<Rightarrow> OSMBuildings" where
  "load u ov = ov\<lparr>data_url := Some u\<rparr>"

definition initializeOSMBuildings :: "MapPage \<Rightarrow> (unit, MapPage) outcome" where
  "initializeOSMBuildings p =
     (case osmb p of
        Some ov \<Rightarrow> Returns () p
      | None \<Rightarrow>
          if OSMBuildings_defined p then
            Returns ()
              (p\<lparr>osmb := Some (load ''https://{s}.data.osmbuildings.org/0.2/59fcc2e8/tile/{z}/{x}/{y}.json''
                                 (new_OSMBuildings (overlays_created p) (map_handle p) osmbSettings)),
                 overlays_created := Suc (overlays_created p),
                 overlays_on_map :=
                   (case map_handle p of
                      None \<Rightarrow> overlays_on_map p
                    | Some m \<Rightarrow> insert (overlays_created p) (overlays_on_map p))\<rparr>)
          else Throws TypeError p)"

record MouseEvent =
  target :: element

definition toggleUI :: "element \<Rightarrow> MapPage \<Rightarrow> (unit, MapPage) outcome" where
  "toggleUI button p = Returns () (p\<lparr>active := insert button (active p - set (buttons p))\<rparr>)"

definition render3D :: "MouseEvent \<Rightarrow> MapPage \<Rightarrow> (unit, MapPage) outcome" where
  "render3D event p =
     (case initializeOSMBuildings p of
        Throws e p' \<Rightarrow> Throws e p'
      | Returns u p' \<Rightarrow> toggleUI (target event) p')"

definition render2D :: "MouseEvent \<Rightarrow> MapPage \<Rightarrow> (unit, MapPage) outcome" where
  "render2D event p =
     toggleUI (target event)
       (case osmb p of
          Some ov \<Rightarrow> p\<lparr>overlays_on_map := overlays_on_map p - {overlay_id ov}, osmb := None\<rparr>
        | None \<Rightarrow> p)"

definition script_src :: string where
  "script_src = ''https://cdn.osmbuildings.org/OSMBuildings-Leaflet.js''"

text \<open>
  \<^verbatim>\<open>loadScript\<close> appends the script element and returns a promise, which settles when
  the browser has loaded the script or has failed to.
\<close>

definition loadScript :: "string \<Rightarrow> MapPage \<Rightarrow> MapPage" where
  "loadScript src p = p\<lparr>scripts := scripts p @ [src]\<rparr>"

text \<open>
  \<^verbatim>\<open>ngAfterViewInit\<close> up to the \<^verbatim>\<open>await\<close>. \<^verbatim>\<open>of(this.map)\<close> calls the subscriber at
  once; the subscriber is an async function, which runs up to its \<^verbatim>\<open>await\<close> and returns
  a promise that nobody keeps. The \<^verbatim>\<open>try\<close> block ends there: its \<^verbatim>\<open>catch\<close> takes what
  \<^verbatim>\<open>getMap\<close> throws.
\<close>

definition ngAfterViewInit :: "MapPage \<Rightarrow> MapPage" where
  "ngAfterViewInit p =
     (case getMap (map_element p) (mapService p) of
        Throws e s' \<Rightarrow> p\<lparr>mapService := console_error ''Error loading OSMBuildings script:'' s'\<rparr>
      | Returns m s' \<Rightarrow>
          loadScript script_src (p\<lparr>mapService := s', map_handle := map_option map_id m\<rparr>))"

text \<open>
  The rest of the subscriber, run when the promise of \<^verbatim>\<open>loadScript\<close> settles: after
  \<^verbatim>\<open>onload\<close> it goes on to \<^verbatim>\<open>initializeOSMBuildings\<close>; after \<^verbatim>\<open>onerror\<close> the
  \<^verbatim>\<open>await\<close> throws the rejection's reason, which rejects the subscriber's own promise.
\<close>

datatype settled = OnLoad | OnError

definition after_loadScript :: "settled \<Rightarrow> string \<Rightarrow> MapPage \<Rightarrow> MapPage" where
  "after_loadScript r src p =
     (case r of
        OnLoad \<Rightarrow>
          (case initializeOSMBuildings (p\<lparr>OSMBuildings_defined := True\<rparr>) of
             Returns u p' \<Rightarrow> p'
           | Throws e p' \<Rightarrow> p'\<lparr>rejections := rejections p' @ [Thrown e]\<rparr>)
      | OnError \<Rightarrow> p\<lparr>rejections := rejections p @ [Reason (''Failed to load script: '' @ src)]\<rparr>)"

text \<open>A page that has just been constructed, in a document with the given elements.\<close>

definition new_MapPage :: "MapService \<Rightarrow> element option \<Rightarrow> element list \<Rightarrow> MapPage" where
  "new_MapPage s el bs =
     \<lparr>mapService = s, map_handle = None, osmb = None, OSMBuildings_defined = False,
      overlays_created = 0, overlays_on_map = {}, map_element = el, buttons = bs,
      active = {}, scripts = [], rejections = []\<rparr>"

section \<open>Notions used to state the properties\<close>

text \<open>
  The value of \<^verbatim>\<open>v.k\<close> where the read does not throw (\<^verbatim>\<open>undefined\<close> where it does),
  and the style override of a feature: the value of \<^verbatim>\<open>feature.properties?.style\<close>.
\<close>

definition prop_of :: "jsval \<Rightarrow> string \<Rightarrow> jsval" where
  "prop_of v k = (case js_get v k of Inr x \<Rightarrow> x | Inl e \<Rightarrow> JUndefined)"

definition style_of :: "jsval \<Rightarrow> jsval" where
  "style_of feature =
     (if nullish (prop_of feature ''properties'') then JUndefined
      else prop_of (prop_of feature ''properties'') ''style'')"

text \<open>
  The fields of a style override that \<^verbatim>\<open>getStyles\<close> reads, each with the path option
  it sets.
\<close>

definition style_fields :: "(string \<times> string) list" where
  "style_fields =
     [(''fill'', ''fillColor''), (''weight'', ''weight''), (''color'', ''color''),
      (''fillOpacity'', ''fillOpacity''), (''dashArray'', ''dashArray'')]"

text \<open>The location of the hard-coded default settings.\<close>

definition default_location :: jsval where
  "default_location = prop_of defaultMapSettings ''location''"

text \<open>The array \<^verbatim>\<open>[position.lat, position.lng]\<close>.\<close>

definition coordinates :: "Position \<Rightarrow> jsval" where
  "coordinates p = JArr [JNum (lat p), JNum (lng p)] []"

text \<open>
  The Leaflet call by which \<^verbatim>\<open>renderLocationMarker\<close> places the marker at a location:
  \<^verbatim>\<open>setLatLng\<close> on the marker the service has, \<^verbatim>\<open>L.marker(...).addTo\<close> if it has none.
\<close>

definition marker_call :: "MapService \<Rightarrow> L_Map \<Rightarrow> jsval \<Rightarrow> Leaflet_call" where
  "marker_call s m loc =
     (case userLocation s of Some mk \<Rightarrow> Call_setLatLng mk loc | None \<Rightarrow> Call_marker loc m)"

text \<open>
  The map as that call leaves it: with the marker on it, if the marker was made by the call.
\<close>

definition marked_map :: "MapService \<Rightarrow> L_Map \<Rightarrow> L_Map" where
  "marked_map s m = (case userLocation s of Some mk \<Rightarrow> m | None \<Rightarrow> addTo MarkerOn m)"

text \<open>
  The map that \<^verbatim>\<open>renderMap\<close> builds for an element on a service that has none: centred
  and zoomed as the settings say, with the tile layer and, where the service has no marker
  yet, the marker it then makes.
\<close>

definition first_map :: "MapService \<Rightarrow> element \<Rightarrow> L_Map" where
  "first_map s el =
     \<lparr>map_id = maps_created s, container = el,
      center = prop_of (mapSettings s) ''location'',
      view_zoom = prop_of (mapSettings s) ''zoom'',
      layers = (case userLocation s of None \<Rightarrow> [TileLayerOn tileLayer, MarkerOn]
                | Some mk \<Rightarrow> [TileLayerOn tileLayer])\<rparr>"

text \<open>
  What can happen to the service after its construction: a call of \<^verbatim>\<open>getMap\<close> or of
  \<^verbatim>\<open>renderGeoJson\<close>, and an answer of the geolocation service. \<open>exec\<close> is the state a
  call leaves, whether it returns or throws, and \<open>run\<close> runs a list of them in order.
\<close>

datatype call =
    GetMap "element option"
  | GeolocationNext "Position option"
  | GeolocationError error
  | RenderGeoJson jsval

fun exec :: "call \<Rightarrow> MapService \<Rightarrow> MapService" where
  "exec (GetMap el) s = state_of (getMap el s)"
| "exec (GeolocationNext position) s = getLocation_next position s"
| "exec (GeolocationError err) s = getLocation_error err s"
| "exec (RenderGeoJson data) s = state_of (renderGeoJson data s)"

definition run :: "call list \<Rightarrow> MapService \<Rightarrow> MapService" where
  "run cs s = foldl (\<lambda>s c. exec c s) s cs"

text \<open>
  The invariant of the map field: none was constructed while the field is empty (and then
  there is no marker either); otherwise exactly one was, and the field refers to it.
\<close>

definition one_map :: "MapService \<Rightarrow> bool" where
  "one_map s =
     (case the_map s of
        None \<Rightarrow> maps_created s = 0 \<and> userLocation s = None
      | Some m \<Rightarrow> maps_created s = 1 \<and> map_id m = 0)"

text \<open>
  Two pages used as examples, both on a document with the map element and two buttons,
  and a service with no stored settings: one whose script has loaded, one whose script
  has failed to load.
\<close>

definition loaded_page :: MapPage where
  "loaded_page =
     after_loadScript OnLoad script_src
       (ngAfterViewInit
          (new_MapPage (new_MapService Map.empty) (Some ''map'') [''button2D'', ''button3D'']))"

definition failed_page :: MapPage where
  "failed_page =
     after_loadScript OnError script_src
       (ngAfterViewInit
          (new_MapPage (new_MapService Map.empty) (Some ''map'') [''button2D'', ''button3D'']))"

text \<open>
  A feature collection of two features, each with a style override of its own.
\<close>

definition two_styled_features :: jsval where
  "two_styled_features =
     JObj [(''type'', JStr ''FeatureCollection''),
           (''features'',
            JArr [JObj [(''type'', JStr ''Feature''),
                        (''properties'', JObj [(''style'', JObj [(''fill'', JStr ''red'')])])],
                  JObj [(''type'', JStr ''Feature''),
                        (''properties'', JObj [(''style'', JObj [(''fill'', JStr ''blue'')])])]] [])]"

text \<open>
  A position and a service used as examples: the service has no stored settings and has
  built its map.
\<close>

definition paris :: Position where
  "paris = \<lparr>lat = Fin 48.85, lng = Fin 2.35\<rparr>"

definition service_with_map :: MapService where
  "service_with_map = state_of (getMap (Some ''map'') (new_MapService Map.empty))"

section \<open>Properties of the values\<close>

lemma js_get_not_nullish: "\<not> nullish v \<Longrightarrow> js_get v k = Inr (prop_of v k)"
  by (cases v) (auto simp: nullish_def prop_of_def)

lemma truthy_not_nullish: "truthy v \<Longrightarrow> \<not> nullish v"
  by (cases v) (auto simp: nullish_def)

lemma map_of_set_prop: "map_of (set_prop k v ps) = (map_of ps)(k \<mapsto> v)"
  by (induction ps) (auto simp: fun_eq_iff)

lemma own_prop_set_prop: "own_prop (set_prop k v ps) k' = (if k' = k then v else own_prop ps k')"
  by (simp add: own_prop_def map_of_set_prop)

lemma js_get_js_set:
  "js_set v k x = Inr v' \<Longrightarrow> k' \<noteq> k \<Longrightarrow> js_get v' k' = js_get v k'"
  by (cases v) (auto simp: own_prop_set_prop map_of_set_prop)

lemma js_get_js_set_same: "js_set v k x = Inr v' \<Longrightarrow> js_get v' k = Inr x"
  by (cases v) (auto simp: own_prop_set_prop map_of_set_prop)

section \<open>Path styles\<close>

lemma getStyles_style_of:
  assumes "\<not> nullish feature"
  shows "getStyles feature =
     (if truthy (style_of feature) then
         bind_get (js_get (style_of feature) ''fill'') (\<lambda>fill.
         bind_get (js_get defaultStyle ''fillColor'') (\<lambda>default_fillColor.
         bind_get (js_get (style_of feature) ''weight'') (\<lambda>weight.
         bind_get (js_get defaultStyle ''weight'') (\<lambda>default_weight.
         bind_get (js_get (style_of feature) ''color'') (\<lambda>color.
         bind_get (js_get defaultStyle ''color'') (\<lambda>default_color.
         bind_get (js_get (style_of feature) ''fillOpacity'') (\<lambda>fillOpacity.
         bind_get (js_get defaultStyle ''fillOpacity'') (\<lambda>default_fillOpacity.
         bind_get (js_get (style_of feature) ''dashArray'') (\<lambda>dashArray.
         bind_get (js_get defaultStyle ''dashArray'') (\<lambda>default_dashArray.
           Inr (JObj [(''fillColor'', js_or fill default_fillColor),
                      (''weight'', js_or weight default_weight),
                      (''color'', js_or color default_color),
                      (''fillOpacity'', js_or fillOpacity default_fillOpacity),
                      (''dashArray'', js_or dashArray default_dashArray)])))))))))))
       else Inr defaultStyle)"
proof (cases "nullish (prop_of feature ''properties'')")
  case True
  then show ?thesis
    unfolding getStyles_def
    by (simp add: js_get_not_nullish [OF assms] bind_get_def js_get_opt_def style_of_def)
next
  case False
  then show ?thesis
    unfolding getStyles_def
    by (simp add: js_get_not_nullish [OF assms] js_get_not_nullish [OF False]
          bind_get_def js_get_opt_def style_of_def)
qed

lemma getStyles_no_style:
  "\<not> nullish feature \<Longrightarrow> \<not> truthy (style_of feature) \<Longrightarrow> getStyles feature = Inr defaultStyle"
  by (simp add: getStyles_style_of)

lemma getStyles_style:
  assumes "\<not> nullish feature" "truthy (style_of feature)"
  shows "getStyles feature =
     Inr (JObj [(''fillColor'', js_or (prop_of (style_of feature) ''fill'') (JStr ''#FFFFFF'')),
                (''weight'', js_or (prop_of (style_of feature) ''weight'') (JNum (Fin 2))),
                (''color'', js_or (prop_of (style_of feature) ''color'') (JStr ''black'')),
                (''fillOpacity'', js_or (prop_of (style_of feature) ''fillOpacity'') (JNum (Fin 0.7))),
                (''dashArray'', js_or (prop_of (style_of feature) ''dashArray'') (JStr ''''))])"
proof -
  have n: "\<not> nullish (style_of feature)" using assms(2) by (rule truthy_not_nullish)
  have d: "js_get defaultStyle k = Inr (prop_of defaultStyle k)" for k
    by (simp add: defaultStyle_def prop_of_def)
  show ?thesis
    unfolding getStyles_style_of [OF assms(1)]
    by (simp add: assms(2) js_get_not_nullish [OF n] d bind_get_def)
       (simp add: prop_of_def defaultStyle_def own_prop_def)
qed

text \<open>
  Claim C4, as the code has it. For every feature (any value but \<^verbatim>\<open>null\<close> and
  \<^verbatim>\<open>undefined\<close>): without a style override (one that is missing or falsy) the computed
  style is exactly the default style; with one, each of the five path options that an
  override can set is the override's value for it where that value is truthy, and the
  default's otherwise. A field that the override sets to a falsy value (\<open>0\<close>, the empty
  string, \<^verbatim>\<open>null\<close>, \<^verbatim>\<open>false\<close>) counts as missing.
\<close>

theorem getStyles_falls_back:
  assumes "\<not> nullish feature"
  shows "(\<not> truthy (style_of feature) \<longrightarrow> getStyles feature = Inr defaultStyle) \<and>
         (truthy (style_of feature) \<longrightarrow>
            (\<exists>st. getStyles feature = Inr st \<and>
               (\<forall>(src, dst) \<in> set style_fields.
                  prop_of st dst =
                    (if truthy (prop_of (style_of feature) src) then prop_of (style_of feature) src
                     else prop_of defaultStyle dst))))"
proof (intro conjI impI)
  assume "\<not> truthy (style_of feature)"
  with assms show "getStyles feature = Inr defaultStyle" by (rule getStyles_no_style)
next
  assume t: "truthy (style_of feature)"
  show "\<exists>st. getStyles feature = Inr st \<and>
               (\<forall>(src, dst) \<in> set style_fields.
                  prop_of st dst =
                    (if truthy (prop_of (style_of feature) src) then prop_of (style_of feature) src
                     else prop_of defaultStyle dst))"
    by (simp add: getStyles_style [OF assms t] style_fields_def prop_of_def own_prop_def js_or_def
          defaultStyle_def)
qed

text \<open>
  A witness: a feature with no style block, and one whose override sets the fill and
  leaves the rest to the defaults.
\<close>

theorem getStyles_falls_back_witness:
  "\<not> nullish (JObj [(''type'', JStr ''Feature'')]) \<and>
   \<not> truthy (style_of (JObj [(''type'', JStr ''Feature'')])) \<and>
   getStyles (JObj [(''type'', JStr ''Feature'')]) = Inr defaultStyle \<and>
   \<not> nullish (JObj [(''properties'', JObj [(''style'', JObj [(''fill'', JStr ''red'')])])]) \<and>
   truthy (style_of (JObj [(''properties'', JObj [(''style'', JObj [(''fill'', JStr ''red'')])])])) \<and>
   getStyles (JObj [(''properties'', JObj [(''style'', JObj [(''fill'', JStr ''red'')])])]) =
     Inr (JObj [(''fillColor'', JStr ''red''), (''weight'', JNum (Fin 2)), (''color'', JStr ''black''),
                (''fillOpacity'', JNum (Fin 0.7)), (''dashArray'', JStr '''')])"
proof -
  have n1: "\<not> nullish (JObj [(''type'', JStr ''Feature'')])"
    by (simp add: nullish_def)
  have s1: "\<not> truthy (style_of (JObj [(''type'', JStr ''Feature'')]))"
    by (simp add: style_of_def prop_of_def own_prop_def nullish_def)
  have n2: "\<not> nullish (JObj [(''properties'', JObj [(''style'', JObj [(''fill'', JStr ''red'')])])])"
    by (simp add: nullish_def)
  have s2: "truthy (style_of (JObj [(''properties'', JObj [(''style'', JObj [(''fill'', JStr ''red'')])])]))"
    by (simp add: style_of_def prop_of_def own_prop_def nullish_def)
  have g2: "getStyles (JObj [(''properties'', JObj [(''style'', JObj [(''fill'', JStr ''red'')])])]) =
     Inr (JObj [(''fillColor'', JStr ''red''), (''weight'', JNum (Fin 2)), (''color'', JStr ''black''),
                (''fillOpacity'', JNum (Fin 0.7)), (''dashArray'', JStr '''')])"
    by (simp add: getStyles_def bind_get_def js_get_opt_def nullish_def own_prop_def js_or_def
          defaultStyle_def)
  from getStyles_falls_back [OF n1] s1
  have "getStyles (JObj [(''type'', JStr ''Feature'')]) = Inr defaultStyle" by blast
  with n1 s1 n2 s2 g2 show ?thesis by blast
qed

text \<open>
  Against claim C4 as it is stated: a feature whose style override sets the line weight
  to \<open>0\<close> does not keep it. The computed weight is the default, \<open>2\<close>.
\<close>

theorem getStyles_drops_falsy_override:
  "style_of (JObj [(''properties'', JObj [(''style'', JObj [(''weight'', JNum (Fin 0))])])])
     = JObj [(''weight'', JNum (Fin 0))] \<and>
   getStyles (JObj [(''properties'', JObj [(''style'', JObj [(''weight'', JNum (Fin 0))])])])
     = Inr (JObj [(''fillColor'', JStr ''#FFFFFF''), (''weight'', JNum (Fin 2)),
                  (''color'', JStr ''black''), (''fillOpacity'', JNum (Fin 0.7)),
                  (''dashArray'', JStr '''')]) \<and>
   JNum (Fin 2) \<noteq> JNum (Fin 0)"
  by (simp add: getStyles_def bind_get_def js_get_opt_def nullish_def own_prop_def js_or_def
        defaultStyle_def style_of_def prop_of_def)

section \<open>The settings under the geolocation callbacks\<close>

lemma mapSettings_renderLocationMarker [simp]:
  "mapSettings (state_of (renderLocationMarker s)) = mapSettings s"
  by (auto simp: renderLocationMarker_def console_warn_def Let_def split: option.splits sum.splits)

lemma mapSettings_saveMapSettings [simp]: "mapSettings (saveMapSettings s) = mapSettings s"
  by (simp add: saveMapSettings_def)

lemma mapSettings_console_warn [simp]: "mapSettings (console_warn msg s) = mapSettings s"
  by (simp add: console_warn_def)

lemma mapSettings_console_error [simp]: "mapSettings (console_error msg s) = mapSettings s"
  by (simp add: console_error_def)

lemma useStoredOrDefaultLocation_frame:
  "k \<noteq> ''location'' \<Longrightarrow>
   js_get (mapSettings (state_of (useStoredOrDefaultLocation s))) k = js_get (mapSettings s) k"
  by (auto simp: useStoredOrDefaultLocation_def js_get_js_set split: sum.splits if_splits)

lemma on_position_frame:
  "k \<noteq> ''location'' \<Longrightarrow>
   js_get (mapSettings (state_of (on_position position s))) k = js_get (mapSettings s) k"
  by (cases position)
     (auto simp: on_position_def useStoredOrDefaultLocation_frame js_get_js_set split: sum.splits)

lemma on_error_frame:
  "k \<noteq> ''location'' \<Longrightarrow> js_get (mapSettings (on_error err s)) k = js_get (mapSettings s) k"
  using useStoredOrDefaultLocation_frame [of k "console_error ''Error fetching geolocation:'' s"]
  by (auto simp: on_error_def split: outcome.splits)

lemma getLocation_next_frame:
  "k \<noteq> ''location'' \<Longrightarrow>
   js_get (mapSettings (getLocation_next position s)) k = js_get (mapSettings s) k"
  using on_position_frame [of k position s]
  by (auto simp: getLocation_next_def on_error_frame split: outcome.splits)

text \<open>
  Claim C10. Whatever the geolocation collaborator reports (a position, \<^verbatim>\<open>null\<close> or an
  error) and whatever the state of the service, the callback leaves every property of
  the settings other than \<^verbatim>\<open>location\<close> as it was; the \<^verbatim>\<open>zoom\<close> in particular reads
  the same before and after.
\<close>

theorem geolocation_changes_only_location:
  "js_get (mapSettings (getLocation_next position s)) ''zoom'' = js_get (mapSettings s) ''zoom'' \<and>
   js_get (mapSettings (getLocation_error err s)) ''zoom'' = js_get (mapSettings s) ''zoom'' \<and>
   (\<forall>k. k \<noteq> ''location'' \<longrightarrow>
      js_get (mapSettings (getLocation_next position s)) k = js_get (mapSettings s) k \<and>
      js_get (mapSettings (getLocation_error err s)) k = js_get (mapSettings s) k)"
  by (simp add: getLocation_next_frame getLocation_error_def on_error_frame)

text \<open>
  A witness: on a service with no stored settings the zoom reads \<open>19\<close>, the default,
  after a position, after \<^verbatim>\<open>null\<close> and after an error.
\<close>

theorem geolocation_changes_only_location_witness:
  "''zoom'' \<noteq> ''location'' \<and>
   js_get (mapSettings (getLocation_next (Some \<lparr>lat = Fin 48.85, lng = Fin 2.35\<rparr>)
             (new_MapService Map.empty))) ''zoom'' = Inr (JNum (Fin 19)) \<and>
   js_get (mapSettings (getLocation_next None (new_MapService Map.empty))) ''zoom''
     = Inr (JNum (Fin 19)) \<and>
   js_get (mapSettings (getLocation_error (Other ''denied'') (new_MapService Map.empty))) ''zoom''
     = Inr (JNum (Fin 19))"
  using geolocation_changes_only_location
          [of "Some \<lparr>lat = Fin 48.85, lng = Fin 2.35\<rparr>" "new_MapService Map.empty" "Other ''denied''"]
        geolocation_changes_only_location
          [of None "new_MapService Map.empty" "Other ''denied''"]
  by (simp add: new_MapService_def initializeMapSettings_def defaultMapSettings_def own_prop_def)

section \<open>The service: markers, maps and callbacks\<close>

lemma is_object_not_nullish: "is_object v \<Longrightarrow> \<not> nullish v"
  by (cases v) (auto simp: is_object_def nullish_def)

lemma js_set_object:
  "is_object v \<Longrightarrow> \<exists>v'. js_set v k x = Inr v' \<and> is_object v'"
  by (cases v) (auto simp: is_object_def)

lemma js_set_not_object: "\<not> is_object v \<Longrightarrow> js_set v k x = Inl TypeError"
  by (cases v) (auto simp: is_object_def)

lemma prop_of_js_set_same: "js_set v k x = Inr v' \<Longrightarrow> prop_of v' k = x"
  by (simp add: prop_of_def js_get_js_set_same)

lemma js_get_prop_of: "js_get v k = Inr x \<Longrightarrow> prop_of v k = x"
  by (simp add: prop_of_def)

lemma set_prop_twice: "set_prop k v (set_prop k v ps) = set_prop k v ps"
  by (induction ps) auto

lemma js_set_twice: "js_set v k x = Inr v' \<Longrightarrow> js_set v' k x = Inr v'"
  by (cases v) (auto simp: set_prop_twice)

lemma Leaflet_throws_console [simp]:
  "Leaflet_throws (console_warn msg s) = Leaflet_throws s"
  "Leaflet_throws (console_error msg s) = Leaflet_throws s"
  by (simp_all add: console_warn_def console_error_def)

lemma Leaflet_throws_saveMapSettings [simp]:
  "Leaflet_throws (saveMapSettings s) = Leaflet_throws s"
  by (simp add: saveMapSettings_def)

lemma renderLocationMarker_no_map:
  "the_map s = None \<Longrightarrow> renderLocationMarker s = Returns () (console_warn ''Map not initialized'' s)"
  by (simp add: renderLocationMarker_def)

lemma renderLocationMarker_map:
  assumes "the_map s = Some m" "\<not> nullish (mapSettings s)"
    and "\<not> Leaflet_throws s (marker_call s m (prop_of (mapSettings s) ''location''))"
    and "\<not> Leaflet_throws s (Call_flyTo (marked_map s m) (prop_of (mapSettings s) ''location'')
                                (prop_of (mapSettings s) ''zoom''))"
  shows "renderLocationMarker s =
    Returns ()
      (case userLocation s of
         Some mk \<Rightarrow>
           s\<lparr>userLocation := Some (setLatLng (prop_of (mapSettings s) ''location'') mk),
             the_map := Some (flyTo (prop_of (mapSettings s) ''location'')
                                (prop_of (mapSettings s) ''zoom'') m)\<rparr>
       | None \<Rightarrow>
           s\<lparr>userLocation := Some (L_marker (prop_of (mapSettings s) ''location'') markerOptions),
             the_map := Some (flyTo (prop_of (mapSettings s) ''location'')
                                (prop_of (mapSettings s) ''zoom'') (addTo MarkerOn m)),
             markers_created := Suc (markers_created s)\<rparr>)"
  using assms
  by (cases "userLocation s")
     (simp_all add: renderLocationMarker_def marker_call_def marked_map_def js_get_not_nullish)

lemma renderLocationMarker_throws:
  assumes "the_map s = Some m" "\<not> nullish (mapSettings s)"
  shows "(\<exists>e s1. renderLocationMarker s = Throws e s1) =
         (Leaflet_throws s (marker_call s m (prop_of (mapSettings s) ''location'')) \<or>
          Leaflet_throws s (Call_flyTo (marked_map s m) (prop_of (mapSettings s) ''location'')
                              (prop_of (mapSettings s) ''zoom'')))"
  using assms
  by (cases "userLocation s")
     (simp_all add: renderLocationMarker_def marker_call_def marked_map_def js_get_not_nullish)

lemma renderLocationMarker_marker_throws:
  assumes "the_map s = Some m" "\<not> nullish (mapSettings s)"
    and "Leaflet_throws s (marker_call s m (prop_of (mapSettings s) ''location''))"
  shows "renderLocationMarker s = Throws LeafletError s"
  using assms
  by (cases "userLocation s")
     (simp_all add: renderLocationMarker_def marker_call_def js_get_not_nullish)

lemma localStorage_renderLocationMarker [simp]:
  "localStorage (state_of (renderLocationMarker s)) = localStorage s"
  by (auto simp: renderLocationMarker_def console_warn_def split: option.splits sum.splits)

lemma console_renderLocationMarker:
  "the_map s = Some m \<Longrightarrow> console (state_of (renderLocationMarker s)) = console s"
  by (auto simp: renderLocationMarker_def split: option.splits sum.splits)

lemma markers_created_renderLocationMarker:
  "userLocation s = Some mk \<Longrightarrow> markers_created (state_of (renderLocationMarker s)) = markers_created s"
  by (auto simp: renderLocationMarker_def console_warn_def split: option.splits sum.splits)

text \<open>
  The callback for a position, on settings that take the assignment: the settings are
  assigned and saved, the marker is rendered, and where rendering throws the handler of
  \<^verbatim>\<open>catchError\<close> logs the error and finds the location in place.
\<close>

lemma on_error_location_present:
  assumes "js_get (mapSettings s) ''location'' = Inr loc" "truthy loc"
    and "js_set (mapSettings s) ''location'' loc = Inr (mapSettings s)"
  shows "on_error err s = console_error ''Error fetching geolocation:'' s"
  using assms by (simp add: on_error_def useStoredOrDefaultLocation_def)

lemma getLocation_next_position:
  assumes "js_set (mapSettings s) ''location'' (coordinates p) = Inr ms"
  shows "getLocation_next (Some p) s =
           (case renderLocationMarker (saveMapSettings (s\<lparr>mapSettings := ms\<rparr>)) of
              Returns u s' \<Rightarrow> s'
            | Throws e s' \<Rightarrow> console_error ''Error fetching geolocation:'' s')"
proof (cases "renderLocationMarker (saveMapSettings (s\<lparr>mapSettings := ms\<rparr>))")
  case (Returns u s')
  then show ?thesis
    using assms by (simp add: getLocation_next_def on_position_def coordinates_def)
next
  case (Throws e s')
  have "mapSettings (state_of (renderLocationMarker (saveMapSettings (s\<lparr>mapSettings := ms\<rparr>)))) = ms"
    by simp
  then have m: "mapSettings s' = ms" by (simp add: Throws)
  have g: "js_get (mapSettings s') ''location'' = Inr (coordinates p)"
    unfolding m by (rule js_get_js_set_same [OF assms])
  have t: "truthy (coordinates p)" by (simp add: coordinates_def)
  have i: "js_set (mapSettings s') ''location'' (coordinates p) = Inr (mapSettings s')"
    unfolding m by (rule js_set_twice [OF assms])
  show ?thesis
    using assms
    by (simp add: getLocation_next_def on_position_def coordinates_def [symmetric] Throws
          on_error_location_present [OF g t i])
qed

lemma success_settings:
  assumes "is_object (mapSettings s)"
  shows "prop_of (mapSettings (getLocation_next (Some p) s)) ''location'' = coordinates p"
proof -
  from js_set_object [OF assms] obtain ms
    where ms: "js_set (mapSettings s) ''location'' (coordinates p) = Inr ms" by blast
  have "mapSettings (state_of (renderLocationMarker (saveMapSettings (s\<lparr>mapSettings := ms\<rparr>)))) = ms"
    by simp
  then have "mapSettings (getLocation_next (Some p) s) = ms"
    by (cases "renderLocationMarker (saveMapSettings (s\<lparr>mapSettings := ms\<rparr>))")
       (simp_all add: getLocation_next_position [OF ms])
  then show ?thesis by (simp add: prop_of_js_set_same [OF ms])
qed

lemma success_storage:
  assumes "is_object (mapSettings s)"
  shows "localStorage (getLocation_next (Some p) s)
         = setItem ''mapSettings'' (JSON_stringify (mapSettings (getLocation_next (Some p) s)))
             (localStorage s)"
proof -
  from js_set_object [OF assms] obtain ms
    where ms: "js_set (mapSettings s) ''location'' (coordinates p) = Inr ms" by blast
  let ?r = "renderLocationMarker (saveMapSettings (s\<lparr>mapSettings := ms\<rparr>))"
  have a: "mapSettings (state_of ?r) = ms" by simp
  have b: "localStorage (state_of ?r)
           = setItem ''mapSettings'' (JSON_stringify ms) (localStorage s)"
    by (simp add: saveMapSettings_def)
  show ?thesis
    using a b
    by (cases ?r) (simp_all add: getLocation_next_position [OF ms] console_error_def)
qed

lemma marker_call_saveMapSettings [simp]:
  "marker_call (saveMapSettings s) = marker_call s" "marked_map (saveMapSettings s) = marked_map s"
  "marker_call (s\<lparr>mapSettings := ms\<rparr>) = marker_call s"
  "marked_map (s\<lparr>mapSettings := ms\<rparr>) = marked_map s"
  by (simp_all add: marker_call_def marked_map_def saveMapSettings_def fun_eq_iff)

lemma success_with_map:
  assumes "is_object (mapSettings s)" "the_map s = Some m"
    and "\<not> Leaflet_throws s (marker_call s m (coordinates p))"
    and "\<not> Leaflet_throws s (Call_flyTo (marked_map s m) (coordinates p)
                                (prop_of (mapSettings s) ''zoom''))"
  shows "\<exists>m' mk. the_map (getLocation_next (Some p) s) = Some m' \<and>
           map_id m' = map_id m \<and> container m' = container m \<and>
           center m' = coordinates p \<and> view_zoom m' = prop_of (mapSettings s) ''zoom'' \<and>
           userLocation (getLocation_next (Some p) s) = Some mk \<and> latlng mk = coordinates p"
proof -
  from js_set_object [OF assms(1)] obtain ms
    where ms: "js_set (mapSettings s) ''location'' (coordinates p) = Inr ms"
      and o: "is_object ms" by blast
  let ?s = "saveMapSettings (s\<lparr>mapSettings := ms\<rparr>)"
  have m: "the_map ?s = Some m" using assms(2) by (simp add: saveMapSettings_def)
  have n: "\<not> nullish (mapSettings ?s)" using o by (simp add: is_object_not_nullish)
  have z: "prop_of ms ''zoom'' = prop_of (mapSettings s) ''zoom''"
    using js_get_js_set [OF ms, of "''zoom''"] by (simp add: prop_of_def)
  have l: "prop_of ms ''location'' = coordinates p"
    by (rule prop_of_js_set_same [OF ms])
  have t1: "\<not> Leaflet_throws ?s (marker_call ?s m (prop_of (mapSettings ?s) ''location''))"
    using assms(3) by (simp add: l)
  have t2: "\<not> Leaflet_throws ?s (Call_flyTo (marked_map ?s m) (prop_of (mapSettings ?s) ''location'')
                                 (prop_of (mapSettings ?s) ''zoom''))"
    using assms(4) by (simp add: l z)
  show ?thesis
    unfolding getLocation_next_position [OF ms] renderLocationMarker_map [OF m n t1 t2]
    by (simp add: prop_of_js_set_same [OF ms] z flyTo_def addTo_def setLatLng_def L_marker_def
          saveMapSettings_def split: option.splits)
qed

text \<open>
  With a map, the callback logs exactly when a Leaflet call of \<^verbatim>\<open>renderLocationMarker\<close>
  throws: the error goes to the handler of \<^verbatim>\<open>catchError\<close>.
\<close>

lemma success_console:
  assumes "is_object (mapSettings s)" "the_map s = Some m"
  shows "console (getLocation_next (Some p) s) =
           (if Leaflet_throws s (marker_call s m (coordinates p)) \<or>
               Leaflet_throws s (Call_flyTo (marked_map s m) (coordinates p)
                                   (prop_of (mapSettings s) ''zoom''))
            then console s @ [ConsoleError ''Error fetching geolocation:'']
            else console s)"
proof -
  from js_set_object [OF assms(1)] obtain ms
    where ms: "js_set (mapSettings s) ''location'' (coordinates p) = Inr ms"
      and o: "is_object ms" by blast
  let ?s = "saveMapSettings (s\<lparr>mapSettings := ms\<rparr>)"
  have m: "the_map ?s = Some m" using assms(2) by (simp add: saveMapSettings_def)
  have n: "\<not> nullish (mapSettings ?s)" using o by (simp add: is_object_not_nullish)
  have z: "prop_of ms ''zoom'' = prop_of (mapSettings s) ''zoom''"
    using js_get_js_set [OF ms, of "''zoom''"] by (simp add: prop_of_def)
  have l: "prop_of ms ''location'' = coordinates p"
    by (rule prop_of_js_set_same [OF ms])
  have t: "(\<exists>e s1. renderLocationMarker ?s = Throws e s1) =
           (Leaflet_throws s (marker_call s m (coordinates p)) \<or>
            Leaflet_throws s (Call_flyTo (marked_map s m) (coordinates p)
                                (prop_of (mapSettings s) ''zoom'')))"
    unfolding renderLocationMarker_throws [OF m n] by (simp add: l z)
  have c: "console (state_of (renderLocationMarker ?s)) = console s"
    unfolding console_renderLocationMarker [OF m] by (simp add: saveMapSettings_def)
  show ?thesis
  proof (cases "renderLocationMarker ?s")
    case (Returns u s')
    with t c show ?thesis by (simp add: getLocation_next_position [OF ms])
  next
    case (Throws e s')
    with t c show ?thesis by (simp add: getLocation_next_position [OF ms] console_error_def)
  qed
qed

lemma success_marker_throws:
  assumes "is_object (mapSettings s)" "the_map s = Some m"
    and "Leaflet_throws s (marker_call s m (coordinates p))"
  shows "the_map (getLocation_next (Some p) s) = the_map s \<and>
         userLocation (getLocation_next (Some p) s) = userLocation s"
proof -
  from js_set_object [OF assms(1)] obtain ms
    where ms: "js_set (mapSettings s) ''location'' (coordinates p) = Inr ms"
      and o: "is_object ms" by blast
  let ?s = "saveMapSettings (s\<lparr>mapSettings := ms\<rparr>)"
  have m: "the_map ?s = Some m" using assms(2) by (simp add: saveMapSettings_def)
  have n: "\<not> nullish (mapSettings ?s)" using o by (simp add: is_object_not_nullish)
  have l: "prop_of ms ''location'' = coordinates p"
    by (rule prop_of_js_set_same [OF ms])
  have t: "Leaflet_throws ?s (marker_call ?s m (prop_of (mapSettings ?s) ''location''))"
    using assms(3) by (simp add: l)
  show ?thesis
    unfolding getLocation_next_position [OF ms] renderLocationMarker_marker_throws [OF m n t]
    by (simp add: console_error_def saveMapSettings_def)
qed

lemma success_marker_count:
  assumes "is_object (mapSettings s)" "userLocation s = Some mk"
  shows "markers_created (getLocation_next (Some p) s) = markers_created s"
proof -
  from js_set_object [OF assms(1)] obtain ms
    where ms: "js_set (mapSettings s) ''location'' (coordinates p) = Inr ms" by blast
  let ?s = "saveMapSettings (s\<lparr>mapSettings := ms\<rparr>)"
  have u: "userLocation ?s = Some mk" using assms(2) by (simp add: saveMapSettings_def)
  have "markers_created (state_of (renderLocationMarker ?s)) = markers_created s"
    using markers_created_renderLocationMarker [OF u] by (simp add: saveMapSettings_def)
  then show ?thesis
    by (cases "renderLocationMarker ?s")
       (simp_all add: getLocation_next_position [OF ms] console_error_def)
qed

lemma success_without_map:
  assumes "is_object (mapSettings s)" "the_map s = None"
  shows "the_map (getLocation_next (Some p) s) = None \<and>
         userLocation (getLocation_next (Some p) s) = userLocation s \<and>
         console (getLocation_next (Some p) s) = console s @ [ConsoleWarn ''Map not initialized'']"
proof -
  from js_set_object [OF assms(1)] obtain ms
    where ms: "js_set (mapSettings s) ''location'' (coordinates p) = Inr ms" by blast
  have m: "the_map (saveMapSettings (s\<lparr>mapSettings := ms\<rparr>)) = None"
    using assms(2) by (simp add: saveMapSettings_def)
  show ?thesis
    unfolding getLocation_next_position [OF ms] renderLocationMarker_no_map [OF m]
    using assms(2) by (simp add: console_warn_def saveMapSettings_def)
qed

lemma map_of_to_json_set_prop:
  "to_json v = Some j \<Longrightarrow>
   map_of (List.map_filter (\<lambda>(k, j). map_option (Pair k) j)
             (map (map_prod id to_json) (set_prop k v ps))) k = Some j"
  by (induction ps) (auto simp: List.map_filter_simps split: option.splits)

lemma success_round_trip:
  assumes "mapSettings s = JObj ps" "lat p = Fin a" "lng p = Fin b"
  shows "\<exists>t v. localStorage (getLocation_next (Some p) s) ''mapSettings'' = Some t \<and>
               JSON_parse t = Inr v \<and>
               prop_of v ''location'' = JArr [JNum (Fin a), JNum (Fin b)] []"
proof -
  have ms: "js_set (mapSettings s) ''location'' (coordinates p)
            = Inr (JObj (set_prop ''location'' (coordinates p) ps))"
    by (simp add: assms(1))
  have c: "to_json (coordinates p) = Some (JArr [JNum (Fin a), JNum (Fin b)] [])"
    by (simp add: coordinates_def assms)
  let ?r = "renderLocationMarker
              (saveMapSettings (s\<lparr>mapSettings := JObj (set_prop ''location'' (coordinates p) ps)\<rparr>))"
  have "localStorage (state_of ?r) ''mapSettings''
        = Some (JSONText (JObj (List.map_filter (\<lambda>(k, j). map_option (Pair k) j)
             (map (map_prod id to_json) (set_prop ''location'' (coordinates p) ps)))))"
    by (simp add: saveMapSettings_def setItem_def JSON_stringify_def)
  then have "localStorage (getLocation_next (Some p) s) ''mapSettings''
        = Some (JSONText (JObj (List.map_filter (\<lambda>(k, j). map_option (Pair k) j)
             (map (map_prod id to_json) (set_prop ''location'' (coordinates p) ps)))))"
    by (cases ?r) (simp_all add: getLocation_next_position [OF ms] console_error_def)
  then show ?thesis
    by (simp add: prop_of_def own_prop_def map_of_to_json_set_prop [OF c])
qed

text \<open>\<^verbatim>\<open>getMap\<close> on a service with a map, and on a service without one.\<close>

lemma getMap_existing: "the_map s = Some m \<Longrightarrow> getMap el s = Returns (Some m) s"
  by (simp add: getMap_def)

lemma getMap_no_element:
  "the_map s = None \<Longrightarrow> getMap None s = Returns None (console_error ''Map element not found'' s)"
  by (simp add: getMap_def renderMap_def console_error_def)

lemma getMap_constructs:
  assumes "the_map s = None" "\<not> nullish (mapSettings s)"
    and "\<not> Leaflet_throws s (Call_map el (prop_of (mapSettings s) ''location'')
                                (prop_of (mapSettings s) ''zoom''))"
    and "\<not> Leaflet_throws s
             (marker_call s
                (addTo (TileLayerOn tileLayer)
                   (L_map (maps_created s) el (prop_of (mapSettings s) ''location'')
                      (prop_of (mapSettings s) ''zoom'')))
                (prop_of (mapSettings s) ''location''))"
    and "\<not> Leaflet_throws s
             (Call_flyTo
                (marked_map s
                   (addTo (TileLayerOn tileLayer)
                      (L_map (maps_created s) el (prop_of (mapSettings s) ''location'')
                         (prop_of (mapSettings s) ''zoom''))))
                (prop_of (mapSettings s) ''location'') (prop_of (mapSettings s) ''zoom''))"
  shows "getMap (Some el) s =
     Returns (Some (first_map s el))
       (s\<lparr>the_map := Some (first_map s el),
          maps_created := Suc (maps_created s),
          userLocation :=
            (case userLocation s of
               None \<Rightarrow> Some (L_marker (prop_of (mapSettings s) ''location'') markerOptions)
             | Some mk \<Rightarrow> Some (setLatLng (prop_of (mapSettings s) ''location'') mk)),
          markers_created :=
            (case userLocation s of None \<Rightarrow> Suc (markers_created s)
             | Some mk \<Rightarrow> markers_created s)\<rparr>)"
proof -
  let ?m = "addTo (TileLayerOn tileLayer)
                (L_map (maps_created s) el (prop_of (mapSettings s) ''location'')
                   (prop_of (mapSettings s) ''zoom''))"
  let ?s = "s\<lparr>the_map := Some ?m, maps_created := Suc (maps_created s)\<rparr>"
  have r: "renderMap (Some el) s = renderLocationMarker ?s"
    using assms(3) by (simp add: renderMap_def js_get_not_nullish [OF assms(2)])
  have m: "the_map ?s = Some ?m" by simp
  have n: "\<not> nullish (mapSettings ?s)" using assms(2) by simp
  have t1: "\<not> Leaflet_throws ?s (marker_call ?s ?m (prop_of (mapSettings ?s) ''location''))"
    using assms(4) by (simp add: marker_call_def)
  have t2: "\<not> Leaflet_throws ?s (Call_flyTo (marked_map ?s ?m) (prop_of (mapSettings ?s) ''location'')
                                 (prop_of (mapSettings ?s) ''zoom''))"
    using assms(5) by (simp add: marked_map_def)
  show ?thesis
    unfolding getMap_def r renderLocationMarker_map [OF m n t1 t2]
    by (cases "userLocation s")
       (simp_all add: assms(1) first_map_def flyTo_def addTo_def L_map_def)
qed

text \<open>A service that has just been constructed, and what the strictest Leaflet takes.\<close>

lemma new_MapService_no_entry:
  "storage ''mapSettings'' = None \<Longrightarrow>
   new_MapService storage =
     \<lparr>mapSettings = defaultMapSettings, the_map = None, userLocation = None,
      localStorage = storage, console = [], maps_created = 0, markers_created = 0,
      unhandled = [], Leaflet_throws = Leaflet_checks\<rparr>"
  by (simp add: new_MapService_def initializeMapSettings_def)

lemma Leaflet_throws_new [simp]: "Leaflet_throws (new_MapService storage) = Leaflet_checks"
  by (simp add: new_MapService_def initializeMapSettings_def console_error_def
        split: option.splits sum.splits)

lemma is_object_default [simp]: "is_object defaultMapSettings"
  by (simp add: defaultMapSettings_def is_object_def)

lemma default_settings_usable [simp]:
  "usable_latlng default_location" "finite_number (prop_of defaultMapSettings ''zoom'')"
  "prop_of defaultMapSettings ''location'' = default_location"
  by (simp_all add: default_location_def prop_of_def defaultMapSettings_def own_prop_def
        usable_latlng_def finite_number_def)

lemma finite_coordinates_usable:
  "lat p = Fin a \<Longrightarrow> lng p = Fin b \<Longrightarrow> usable_latlng (coordinates p)"
  by (simp add: coordinates_def usable_latlng_def finite_number_def)

lemma Leaflet_checks_marker_call [simp]:
  "Leaflet_checks (marker_call s m loc) = (\<not> usable_latlng loc)"
  by (simp add: marker_call_def split: option.splits)

lemma has_view_simps [simp]:
  "has_view (marked_map s m) = has_view m"
  "has_view (addTo l m) = has_view m"
  "has_view (L_map i el c z) = (usable_latlng c \<and> finite_number z)"
  "has_view (flyTo c z m) = (usable_latlng c \<and> finite_number z)"
  by (simp_all add: has_view_def marked_map_def addTo_def L_map_def flyTo_def split: option.splits)

lemma has_view_first_map [simp]:
  "has_view (first_map s el) =
     (usable_latlng (prop_of (mapSettings s) ''location'') \<and>
      finite_number (prop_of (mapSettings s) ''zoom''))"
  by (simp add: has_view_def first_map_def)

lemma Leaflet_throws_getLocation_next [simp]:
  "Leaflet_throws (getLocation_next position s) = Leaflet_throws s"
proof -
  have r: "Leaflet_throws (state_of (renderLocationMarker t)) = Leaflet_throws t" for t
    by (auto simp: renderLocationMarker_def split: option.splits sum.splits)
  have u: "Leaflet_throws (state_of (useStoredOrDefaultLocation t)) = Leaflet_throws t" for t
    by (auto simp: useStoredOrDefaultLocation_def split: sum.splits)
  have e: "Leaflet_throws (on_error x t) = Leaflet_throws t" for x t
    using u [of "console_error ''Error fetching geolocation:'' t"]
    by (auto simp: on_error_def split: outcome.splits)
  have p: "Leaflet_throws (state_of (on_position position s)) = Leaflet_throws s"
    using u [of "console_warn ''No position available, using stored or default settings'' s"]
          r [of "saveMapSettings (s\<lparr>mapSettings := ms\<rparr>)" for ms]
    by (auto simp: on_position_def split: option.splits sum.splits)
  show ?thesis
    using p by (auto simp: getLocation_next_def e split: outcome.splits)
qed

text \<open>
  A service with the default settings and no map, in a browser whose Leaflet throws on no
  call that the strictest one takes: the view is centred on a reported position with
  finite coordinates, whether the position arrives before the map is built or after.
\<close>

lemma success_then_getMap:
  assumes "mapSettings s = defaultMapSettings" "the_map s = None"
    and "lat p = Fin a" "lng p = Fin b"
    and "\<forall>c. Leaflet_throws s c \<longrightarrow> Leaflet_checks c"
  shows "\<exists>m. returned (getMap (Some el) (getLocation_next (Some p) s)) = Some (Some m) \<and>
             center m = coordinates p"
proof -
  let ?s1 = "getLocation_next (Some p) s"
  have o: "is_object (mapSettings s)" using assms(1) by simp
  have m1: "the_map ?s1 = None" using success_without_map [OF o assms(2)] by simp
  have l1: "prop_of (mapSettings ?s1) ''location'' = coordinates p" by (rule success_settings [OF o])
  have z1: "prop_of (mapSettings ?s1) ''zoom'' = prop_of defaultMapSettings ''zoom''"
    using getLocation_next_frame [of "''zoom''" "Some p" s] assms(1) by (simp add: prop_of_def)
  have n1: "\<not> nullish (mapSettings ?s1)"
    using l1 by (cases "mapSettings ?s1") (auto simp: nullish_def prop_of_def coordinates_def)
  have u: "usable_latlng (coordinates p)" by (rule finite_coordinates_usable [OF assms(3,4)])
  have t: "\<not> Leaflet_throws ?s1 c" if "\<not> Leaflet_checks c" for c
    using assms(5) that by auto
  have "getMap (Some el) ?s1 =
     Returns (Some (first_map ?s1 el))
       (?s1\<lparr>the_map := Some (first_map ?s1 el),
          maps_created := Suc (maps_created ?s1),
          userLocation :=
            (case userLocation ?s1 of
               None \<Rightarrow> Some (L_marker (prop_of (mapSettings ?s1) ''location'') markerOptions)
             | Some mk \<Rightarrow> Some (setLatLng (prop_of (mapSettings ?s1) ''location'') mk)),
          markers_created :=
            (case userLocation ?s1 of None \<Rightarrow> Suc (markers_created ?s1)
             | Some mk \<Rightarrow> markers_created ?s1)\<rparr>)"
    by (rule getMap_constructs [OF m1 n1]; rule t) (simp_all add: l1 z1 u)
  then show ?thesis
    by (simp add: first_map_def l1)
qed

lemma getMap_then_success:
  assumes "mapSettings s = defaultMapSettings" "the_map s = None"
    and "lat p = Fin a" "lng p = Fin b"
    and "\<forall>c. Leaflet_throws s c \<longrightarrow> Leaflet_checks c"
  shows "\<exists>m. the_map (getLocation_next (Some p) (state_of (getMap (Some el) s))) = Some m \<and>
             center m = coordinates p"
proof -
  let ?s1 = "state_of (getMap (Some el) s)"
  have o: "is_object (mapSettings s)" using assms(1) by simp
  have t: "\<not> Leaflet_throws s c" if "\<not> Leaflet_checks c" for c
    using assms(5) that by auto
  have g: "getMap (Some el) s =
     Returns (Some (first_map s el))
       (s\<lparr>the_map := Some (first_map s el),
          maps_created := Suc (maps_created s),
          userLocation :=
            (case userLocation s of
               None \<Rightarrow> Some (L_marker (prop_of (mapSettings s) ''location'') markerOptions)
             | Some mk \<Rightarrow> Some (setLatLng (prop_of (mapSettings s) ''location'') mk)),
          markers_created :=
            (case userLocation s of None \<Rightarrow> Suc (markers_created s)
             | Some mk \<Rightarrow> markers_created s)\<rparr>)"
    by (rule getMap_constructs [OF assms(2) is_object_not_nullish [OF o]]; rule t)
       (simp_all add: assms(1))
  have s1: "is_object (mapSettings ?s1)" "the_map ?s1 = Some (first_map s el)"
    and t1: "Leaflet_throws ?s1 = Leaflet_throws s"
    and z: "prop_of (mapSettings ?s1) ''zoom'' = prop_of defaultMapSettings ''zoom''"
    using o by (simp_all add: g assms(1))
  have u: "usable_latlng (coordinates p)" by (rule finite_coordinates_usable [OF assms(3,4)])
  have "\<exists>m' mk. the_map (getLocation_next (Some p) ?s1) = Some m' \<and>
           map_id m' = map_id (first_map s el) \<and> container m' = container (first_map s el) \<and>
           center m' = coordinates p \<and> view_zoom m' = prop_of (mapSettings ?s1) ''zoom'' \<and>
           userLocation (getLocation_next (Some p) ?s1) = Some mk \<and> latlng mk = coordinates p"
    unfolding t1
    by (rule success_with_map [OF s1]; unfold t1; rule t) (simp_all add: z u assms(1))
  then show ?thesis by blast
qed

text \<open>The callback for \<^verbatim>\<open>null\<close> and for an error.\<close>

lemma useStored_truthy:
  assumes "js_get (mapSettings s) ''location'' = Inr loc" "truthy loc"
  shows "\<exists>s'. useStoredOrDefaultLocation s = Returns () s' \<and>
              js_get (mapSettings s') ''location'' = Inr loc \<and> the_map s' = the_map s"
proof -
  have "is_object (mapSettings s)"
    using assms by (cases "mapSettings s") (auto simp: is_object_def)
  from js_set_object [OF this] obtain ms
    where ms: "js_set (mapSettings s) ''location'' loc = Inr ms" by blast
  show ?thesis
    by (simp add: useStoredOrDefaultLocation_def assms ms js_get_js_set_same [OF ms])
qed

lemma useStored_falsy:
  assumes "is_object (mapSettings s)" "\<not> truthy (prop_of (mapSettings s) ''location'')"
  shows "\<exists>s'. useStoredOrDefaultLocation s = Returns () s' \<and>
              js_get (mapSettings s') ''location'' = Inr default_location \<and> the_map s' = the_map s"
proof -
  have d: "js_get defaultMapSettings ''location'' = Inr default_location"
    by (simp add: default_location_def prop_of_def defaultMapSettings_def)
  from js_set_object [OF assms(1)] obtain ms
    where ms: "js_set (mapSettings s) ''location'' default_location = Inr ms" by blast
  show ?thesis
    using assms(2)
    by (simp add: useStoredOrDefaultLocation_def js_get_not_nullish [OF is_object_not_nullish [OF assms(1)]]
          d ms js_get_js_set_same [OF ms])
qed

lemma useStored_not_object:
  "\<not> is_object (mapSettings s) \<Longrightarrow> mapSettings (state_of (useStoredOrDefaultLocation s)) = mapSettings s"
  by (auto simp: useStoredOrDefaultLocation_def js_set_not_object split: sum.splits)

lemma the_map_console [simp]:
  "the_map (console_warn msg s) = the_map s" "the_map (console_error msg s) = the_map s"
  by (simp_all add: console_warn_def console_error_def)

lemma the_map_useStored: "the_map (state_of (useStoredOrDefaultLocation s)) = the_map s"
  by (auto simp: useStoredOrDefaultLocation_def split: sum.splits)

lemma the_map_on_error [simp]: "the_map (on_error err s) = the_map s"
  using the_map_useStored [of "console_error ''Error fetching geolocation:'' s"]
  by (auto simp: on_error_def split: outcome.splits)

lemma the_map_no_position [simp]: "the_map (getLocation_next None s) = the_map s"
  using the_map_useStored [of "console_warn ''No position available, using stored or default settings'' s"]
  by (auto simp: getLocation_next_def on_position_def split: outcome.splits)

lemma no_position_truthy:
  assumes "js_get (mapSettings s) ''location'' = Inr loc" "truthy loc"
  shows "js_get (mapSettings (getLocation_next None s)) ''location'' = Inr loc"
    and "js_get (mapSettings (getLocation_error err s)) ''location'' = Inr loc"
proof -
  let ?w = "console_warn ''No position available, using stored or default settings'' s"
  let ?e = "console_error ''Error fetching geolocation:'' s"
  have "js_get (mapSettings ?w) ''location'' = Inr loc" using assms(1) by simp
  from useStored_truthy [OF this assms(2)]
  show "js_get (mapSettings (getLocation_next None s)) ''location'' = Inr loc"
    by (auto simp: getLocation_next_def on_position_def)
  have "js_get (mapSettings ?e) ''location'' = Inr loc" using assms(1) by simp
  from useStored_truthy [OF this assms(2)]
  show "js_get (mapSettings (getLocation_error err s)) ''location'' = Inr loc"
    by (auto simp: getLocation_error_def on_error_def)
qed

lemma no_position_falsy:
  assumes "is_object (mapSettings s)" "\<not> truthy (prop_of (mapSettings s) ''location'')"
  shows "js_get (mapSettings (getLocation_next None s)) ''location'' = Inr default_location"
    and "js_get (mapSettings (getLocation_error err s)) ''location'' = Inr default_location"
proof -
  let ?w = "console_warn ''No position available, using stored or default settings'' s"
  let ?e = "console_error ''Error fetching geolocation:'' s"
  have "is_object (mapSettings ?w)" "\<not> truthy (prop_of (mapSettings ?w) ''location'')"
    using assms by simp_all
  from useStored_falsy [OF this]
  show "js_get (mapSettings (getLocation_next None s)) ''location'' = Inr default_location"
    by (auto simp: getLocation_next_def on_position_def)
  have "is_object (mapSettings ?e)" "\<not> truthy (prop_of (mapSettings ?e) ''location'')"
    using assms by simp_all
  from useStored_falsy [OF this]
  show "js_get (mapSettings (getLocation_error err s)) ''location'' = Inr default_location"
    by (auto simp: getLocation_error_def on_error_def)
qed

lemma no_position_not_object:
  assumes "\<not> is_object (mapSettings s)"
  shows "mapSettings (getLocation_next None s) = mapSettings s"
    and "mapSettings (getLocation_error err s) = mapSettings s"
proof -
  let ?w = "console_warn ''No position available, using stored or default settings'' s"
  let ?e = "console_error ''Error fetching geolocation:'' s"
  have e: "mapSettings (on_error x t) = mapSettings t" if "\<not> is_object (mapSettings t)" for x t
    using useStored_not_object [of "console_error ''Error fetching geolocation:'' t"] that
    by (auto simp: on_error_def split: outcome.splits)
  show "mapSettings (getLocation_error err s) = mapSettings s"
    using assms by (simp add: getLocation_error_def e)
  have "\<not> is_object (mapSettings ?w)" using assms by simp
  from useStored_not_object [OF this]
  show "mapSettings (getLocation_next None s) = mapSettings s"
    using assms by (auto simp: getLocation_next_def on_position_def e split: outcome.splits)
qed

lemma default_location_truthy [simp]: "truthy default_location"
  by (simp add: default_location_def prop_of_def defaultMapSettings_def own_prop_def)

lemma no_position_then_getMap:
  assumes "storage ''mapSettings'' = None"
  shows "\<exists>m. returned (getMap (Some el) (getLocation_next None (new_MapService storage)))
               = Some (Some m) \<and> center m = default_location"
proof -
  let ?s0 = "new_MapService storage"
  let ?s1 = "getLocation_next None ?s0"
  have l0: "js_get (mapSettings ?s0) ''location'' = Inr default_location" and m: "the_map ?s0 = None"
    and z0: "prop_of (mapSettings ?s0) ''zoom'' = prop_of defaultMapSettings ''zoom''"
    using assms by (simp_all add: new_MapService_no_entry default_location_def prop_of_def
          defaultMapSettings_def)
  have l1: "js_get (mapSettings ?s1) ''location'' = Inr default_location"
    by (rule no_position_truthy(1) [OF l0]) simp
  have z1: "prop_of (mapSettings ?s1) ''zoom'' = prop_of defaultMapSettings ''zoom''"
    using getLocation_next_frame [of "''zoom''" None ?s0] z0 by (simp add: prop_of_def)
  have m1: "the_map ?s1 = None" using m by simp
  have n1: "\<not> nullish (mapSettings ?s1)"
    using l1 by (cases "mapSettings ?s1") (auto simp: nullish_def)
  from getMap_constructs [OF m1 n1, of el] show ?thesis
    by (simp add: first_map_def js_get_prop_of [OF l1] z1)
qed

lemma getMap_then_no_position:
  assumes "storage ''mapSettings'' = None"
  shows "\<exists>m. the_map (getLocation_next None (state_of (getMap (Some el) (new_MapService storage))))
               = Some m \<and> center m = default_location"
proof -
  let ?s0 = "new_MapService storage"
  have o: "is_object (mapSettings ?s0)" and m: "the_map ?s0 = None"
    and s0: "mapSettings ?s0 = defaultMapSettings"
    using assms by (simp_all add: new_MapService_no_entry)
  have "the_map (state_of (getMap (Some el) ?s0)) = Some (first_map ?s0 el)"
    by (subst getMap_constructs [OF m is_object_not_nullish [OF o]]) (simp_all add: s0)
  then show ?thesis
    by (simp add: first_map_def s0)
qed

section \<open>Evaluating the service on concrete inputs\<close>

lemmas svc_defs = new_MapService_def initializeMapSettings_def defaultMapSettings_def
  renderLocationMarker_def renderMap_def getMap_def saveMapSettings_def
  useStoredOrDefaultLocation_def on_position_def on_error_def getLocation_next_def
  getLocation_error_def console_warn_def console_error_def own_prop_def
  L_map_def addTo_def flyTo_def L_marker_def setLatLng_def setItem_def JSON_stringify_def
  usable_latlng_def finite_number_def has_view_def LeafletError_def

section \<open>A position from the geolocation service\<close>

lemma renderLocationMarker_throws_view:
  assumes "the_map s = Some m" "renderLocationMarker s = Throws e s1"
  shows "map_option center (the_map s1) = Some (center m) \<and>
         map_option view_zoom (the_map s1) = Some (view_zoom m)"
  using assms
  by (cases "userLocation s")
     (auto simp: renderLocationMarker_def addTo_def split: sum.splits if_splits)

lemma success_throws_view:
  assumes "is_object (mapSettings s)" "the_map s = Some m"
    and "Leaflet_throws s (marker_call s m (coordinates p)) \<or>
         Leaflet_throws s (Call_flyTo (marked_map s m) (coordinates p)
                             (prop_of (mapSettings s) ''zoom''))"
  shows "map_option center (the_map (getLocation_next (Some p) s)) = Some (center m) \<and>
         map_option view_zoom (the_map (getLocation_next (Some p) s)) = Some (view_zoom m)"
proof -
  from js_set_object [OF assms(1)] obtain ms
    where ms: "js_set (mapSettings s) ''location'' (coordinates p) = Inr ms"
      and o: "is_object ms" by blast
  let ?s = "saveMapSettings (s\<lparr>mapSettings := ms\<rparr>)"
  have m: "the_map ?s = Some m" using assms(2) by (simp add: saveMapSettings_def)
  have n: "\<not> nullish (mapSettings ?s)" using o by (simp add: is_object_not_nullish)
  have z: "prop_of ms ''zoom'' = prop_of (mapSettings s) ''zoom''"
    using js_get_js_set [OF ms, of "''zoom''"] by (simp add: prop_of_def)
  have l: "prop_of ms ''location'' = coordinates p"
    by (rule prop_of_js_set_same [OF ms])
  have "\<exists>e s1. renderLocationMarker ?s = Throws e s1"
    unfolding renderLocationMarker_throws [OF m n] using assms(3) by (simp add: l z)
  then obtain e s1 where t: "renderLocationMarker ?s = Throws e s1" by blast
  from renderLocationMarker_throws_view [OF m t] show ?thesis
    by (simp add: getLocation_next_position [OF ms] t)
qed

text \<open>
  Claim C1, as the code has it. When the geolocation service reports a position and the
  settings are an object, the callback overwrites the location of the settings with the
  reported coordinates and stores the serialised settings under \<^verbatim>\<open>mapSettings\<close>; for
  settings that are a plain object and finite coordinates, parsing the stored entry gives
  the reported coordinates back. If the service has a map and Leaflet takes the call that
  places the marker and the call of \<^verbatim>\<open>flyTo\<close>, the marker then stands at the
  coordinates (it is made if there was none, and only moved if there was one), the map
  has flown there at the zoom of the settings, and nothing is logged. If one of the two
  calls throws, the error is logged by the handler of \<^verbatim>\<open>catchError\<close> and the view
  stays where it was; if it is the call that places the marker, the marker stays as it
  was too. If the service has no map yet, no marker is made or moved, and
  \<^verbatim>\<open>renderLocationMarker\<close> logs the warning that the map is not initialized. In
  particular, with no stored settings, finite coordinates and a Leaflet that throws on no
  call that the strictest one takes, the view is centred on the reported coordinates,
  whether the position arrives before \<^verbatim>\<open>getMap\<close> builds the map or after.
\<close>

theorem position_overwrites_location:
  "(is_object (mapSettings s) \<longrightarrow>
      prop_of (mapSettings (getLocation_next (Some p) s)) ''location'' = coordinates p \<and>
      localStorage (getLocation_next (Some p) s)
        = setItem ''mapSettings'' (JSON_stringify (mapSettings (getLocation_next (Some p) s)))
            (localStorage s) \<and>
      (\<forall>ps a b. mapSettings s = JObj ps \<and> lat p = Fin a \<and> lng p = Fin b \<longrightarrow>
         (\<exists>t v. localStorage (getLocation_next (Some p) s) ''mapSettings'' = Some t \<and>
                JSON_parse t = Inr v \<and>
                prop_of v ''location'' = JArr [JNum (Fin a), JNum (Fin b)] [])) \<and>
      (\<forall>m. the_map s = Some m \<and>
            \<not> Leaflet_throws s (marker_call s m (coordinates p)) \<and>
            \<not> Leaflet_throws s (Call_flyTo (marked_map s m) (coordinates p)
                                   (prop_of (mapSettings s) ''zoom'')) \<longrightarrow>
         (\<exists>m' mk. the_map (getLocation_next (Some p) s) = Some m' \<and>
            map_id m' = map_id m \<and> container m' = container m \<and>
            center m' = coordinates p \<and> view_zoom m' = prop_of (mapSettings s) ''zoom'' \<and>
            userLocation (getLocation_next (Some p) s) = Some mk \<and> latlng mk = coordinates p) \<and>
         console (getLocation_next (Some p) s) = console s) \<and>
      (\<forall>m. the_map s = Some m \<and>
            (Leaflet_throws s (marker_call s m (coordinates p)) \<or>
             Leaflet_throws s (Call_flyTo (marked_map s m) (coordinates p)
                                 (prop_of (mapSettings s) ''zoom''))) \<longrightarrow>
         console (getLocation_next (Some p) s)
           = console s @ [ConsoleError ''Error fetching geolocation:''] \<and>
         map_option center (the_map (getLocation_next (Some p) s)) = Some (center m) \<and>
         map_option view_zoom (the_map (getLocation_next (Some p) s)) = Some (view_zoom m)) \<and>
      (\<forall>m. the_map s = Some m \<and> Leaflet_throws s (marker_call s m (coordinates p)) \<longrightarrow>
         the_map (getLocation_next (Some p) s) = the_map s \<and>
         userLocation (getLocation_next (Some p) s) = userLocation s) \<and>
      (\<forall>mk. userLocation s = Some mk \<longrightarrow>
         markers_created (getLocation_next (Some p) s) = markers_created s) \<and>
      (the_map s = None \<longrightarrow>
         the_map (getLocation_next (Some p) s) = None \<and>
         userLocation (getLocation_next (Some p) s) = userLocation s \<and>
         console (getLocation_next (Some p) s)
           = console s @ [ConsoleWarn ''Map not initialized''])) \<and>
   (storage ''mapSettings'' = None \<and> lat p = Fin x \<and> lng p = Fin y \<and>
    (\<forall>c. L c \<longrightarrow> Leaflet_checks c) \<longrightarrow>
      (\<exists>m. returned (getMap (Some el) (getLocation_next (Some p)
                 ((new_MapService storage)\<lparr>Leaflet_throws := L\<rparr>)))
              = Some (Some m) \<and> center m = coordinates p) \<and>
      (\<exists>m. the_map (getLocation_next (Some p) (state_of (getMap (Some el)
                 ((new_MapService storage)\<lparr>Leaflet_throws := L\<rparr>))))
              = Some m \<and> center m = coordinates p))"
proof (intro conjI impI allI)
  assume o: "is_object (mapSettings s)"
  show "prop_of (mapSettings (getLocation_next (Some p) s)) ''location'' = coordinates p"
    by (rule success_settings [OF o])
  show "localStorage (getLocation_next (Some p) s)
        = setItem ''mapSettings'' (JSON_stringify (mapSettings (getLocation_next (Some p) s)))
            (localStorage s)"
    by (rule success_storage [OF o])
  show "\<exists>t v. localStorage (getLocation_next (Some p) s) ''mapSettings'' = Some t \<and>
                JSON_parse t = Inr v \<and>
                prop_of v ''location'' = JArr [JNum (Fin a), JNum (Fin b)] []"
    if "mapSettings s = JObj ps \<and> lat p = Fin a \<and> lng p = Fin b" for ps a b
    using that by (blast intro: success_round_trip)
  show "\<exists>m' mk. the_map (getLocation_next (Some p) s) = Some m' \<and>
            map_id m' = map_id m \<and> container m' = container m \<and>
            center m' = coordinates p \<and> view_zoom m' = prop_of (mapSettings s) ''zoom'' \<and>
            userLocation (getLocation_next (Some p) s) = Some mk \<and> latlng mk = coordinates p"
    if "the_map s = Some m \<and>
        \<not> Leaflet_throws s (marker_call s m (coordinates p)) \<and>
        \<not> Leaflet_throws s (Call_flyTo (marked_map s m) (coordinates p)
                               (prop_of (mapSettings s) ''zoom''))" for m
    using that by (blast intro: success_with_map [OF o])
  show "console (getLocation_next (Some p) s) = console s"
    if "the_map s = Some m \<and>
        \<not> Leaflet_throws s (marker_call s m (coordinates p)) \<and>
        \<not> Leaflet_throws s (Call_flyTo (marked_map s m) (coordinates p)
                               (prop_of (mapSettings s) ''zoom''))" for m
    using that success_console [OF o, of m p] by simp
  show "console (getLocation_next (Some p) s)
          = console s @ [ConsoleError ''Error fetching geolocation:'']"
    if "the_map s = Some m \<and>
        (Leaflet_throws s (marker_call s m (coordinates p)) \<or>
         Leaflet_throws s (Call_flyTo (marked_map s m) (coordinates p)
                             (prop_of (mapSettings s) ''zoom'')))" for m
    using that success_console [OF o, of m p] by auto
  show "map_option center (the_map (getLocation_next (Some p) s)) = Some (center m)"
    if "the_map s = Some m \<and>
        (Leaflet_throws s (marker_call s m (coordinates p)) \<or>
         Leaflet_throws s (Call_flyTo (marked_map s m) (coordinates p)
                             (prop_of (mapSettings s) ''zoom'')))" for m
    using that success_throws_view [OF o, of m p] by blast
  show "map_option view_zoom (the_map (getLocation_next (Some p) s)) = Some (view_zoom m)"
    if "the_map s = Some m \<and>
        (Leaflet_throws s (marker_call s m (coordinates p)) \<or>
         Leaflet_throws s (Call_flyTo (marked_map s m) (coordinates p)
                             (prop_of (mapSettings s) ''zoom'')))" for m
    using that success_throws_view [OF o, of m p] by blast
  show "the_map (getLocation_next (Some p) s) = the_map s"
    if "the_map s = Some m \<and> Leaflet_throws s (marker_call s m (coordinates p))" for m
    using that success_marker_throws [OF o, of m p] by blast
  show "userLocation (getLocation_next (Some p) s) = userLocation s"
    if "the_map s = Some m \<and> Leaflet_throws s (marker_call s m (coordinates p))" for m
    using that success_marker_throws [OF o, of m p] by blast
  show "markers_created (getLocation_next (Some p) s) = markers_created s"
    if "userLocation s = Some mk" for mk
    by (rule success_marker_count [OF o that])
  show "the_map (getLocation_next (Some p) s) = None" if "the_map s = None"
    using success_without_map [OF o that] by simp
  show "userLocation (getLocation_next (Some p) s) = userLocation s" if "the_map s = None"
    using success_without_map [OF o that] by simp
  show "console (getLocation_next (Some p) s) = console s @ [ConsoleWarn ''Map not initialized'']"
    if "the_map s = None"
    using success_without_map [OF o that] by simp
next
  assume h: "storage ''mapSettings'' = None \<and> lat p = Fin x \<and> lng p = Fin y \<and>
             (\<forall>c. L c \<longrightarrow> Leaflet_checks c)"
  let ?s = "(new_MapService storage)\<lparr>Leaflet_throws := L\<rparr>"
  have s: "mapSettings ?s = defaultMapSettings" "the_map ?s = None"
    and t: "\<forall>c. Leaflet_throws ?s c \<longrightarrow> Leaflet_checks c"
    using h by (simp_all add: new_MapService_no_entry)
  from h have x: "lat p = Fin x" and y: "lng p = Fin y" by simp_all
  show "\<exists>m. returned (getMap (Some el) (getLocation_next (Some p) ?s))
              = Some (Some m) \<and> center m = coordinates p"
    by (rule success_then_getMap [OF s x y t])
  show "\<exists>m. the_map (getLocation_next (Some p) (state_of (getMap (Some el) ?s)))
              = Some m \<and> center m = coordinates p"
    by (rule getMap_then_success [OF s x y t])
qed

text \<open>
  A witness: a position arriving at a service that has built its map, the same position
  arriving before the map is built, and a position whose latitude is not a number, on
  which the Leaflet of the examples throws.
\<close>

theorem position_overwrites_location_witness:
  "is_object (mapSettings service_with_map) \<and>
   mapSettings service_with_map = defaultMapSettings \<and>
   map_option map_id (the_map service_with_map) = Some 0 \<and>
   map_option center (the_map service_with_map) = Some default_location \<and>
   map_option latlng (userLocation service_with_map) = Some default_location \<and>
   markers_created service_with_map = 1 \<and>
   console service_with_map = [] \<and>
   map_option (\<lambda>m. Leaflet_throws service_with_map
                      (marker_call service_with_map m (coordinates paris)))
       (the_map service_with_map) = Some False \<and>
   map_option (\<lambda>m. Leaflet_throws service_with_map
                      (Call_flyTo (marked_map service_with_map m) (coordinates paris)
                         (prop_of (mapSettings service_with_map) ''zoom'')))
       (the_map service_with_map) = Some False \<and>
   prop_of (mapSettings (getLocation_next (Some paris) service_with_map)) ''location''
     = JArr [JNum (Fin 48.85), JNum (Fin 2.35)] [] \<and>
   localStorage (getLocation_next (Some paris) service_with_map) ''mapSettings''
     = Some (JSONText (JObj [(''location'', JArr [JNum (Fin 48.85), JNum (Fin 2.35)] []),
                             (''zoom'', JNum (Fin 19))])) \<and>
   map_option center (the_map (getLocation_next (Some paris) service_with_map))
     = Some (JArr [JNum (Fin 48.85), JNum (Fin 2.35)] []) \<and>
   map_option view_zoom (the_map (getLocation_next (Some paris) service_with_map))
     = Some (JNum (Fin 19)) \<and>
   map_option latlng (userLocation (getLocation_next (Some paris) service_with_map))
     = Some (JArr [JNum (Fin 48.85), JNum (Fin 2.35)] []) \<and>
   markers_created (getLocation_next (Some paris) service_with_map) = 1 \<and>
   console (getLocation_next (Some paris) service_with_map) = [] \<and>
   map_option (\<lambda>m. Leaflet_throws service_with_map
                      (marker_call service_with_map m (coordinates \<lparr>lat = NaN, lng = Fin 2.35\<rparr>)))
       (the_map service_with_map) = Some True \<and>
   console (getLocation_next (Some \<lparr>lat = NaN, lng = Fin 2.35\<rparr>) service_with_map)
     = [ConsoleError ''Error fetching geolocation:''] \<and>
   map_option center (the_map (getLocation_next (Some \<lparr>lat = NaN, lng = Fin 2.35\<rparr>) service_with_map))
     = Some default_location \<and>
   map_option latlng (userLocation (getLocation_next (Some \<lparr>lat = NaN, lng = Fin 2.35\<rparr>)
       service_with_map))
     = Some default_location \<and>
   the_map (new_MapService Map.empty) = None \<and>
   the_map (getLocation_next (Some paris) (new_MapService Map.empty)) = None \<and>
   console (getLocation_next (Some paris) (new_MapService Map.empty))
     = [ConsoleWarn ''Map not initialized''] \<and>
   (Map.empty :: string \<rightharpoonup> stored_text) ''mapSettings'' = None \<and>
   lat paris = Fin 48.85 \<and> lng paris = Fin 2.35 \<and>
   map_option (map_option center)
       (returned (getMap (Some ''map'') (getLocation_next (Some paris) (new_MapService Map.empty))))
     = Some (Some (JArr [JNum (Fin 48.85), JNum (Fin 2.35)] [])) \<and>
   map_option center
       (the_map (getLocation_next (Some paris)
          (state_of (getMap (Some ''map'') (new_MapService Map.empty)))))
     = Some (JArr [JNum (Fin 48.85), JNum (Fin 2.35)] [])"
proof -
  let ?nan = "\<lparr>lat = NaN, lng = Fin 2.35\<rparr>"
  let ?m = "first_map (new_MapService Map.empty) ''map''"
  have o: "is_object (mapSettings service_with_map)"
    by (simp add: service_with_map_def svc_defs is_object_def)
  have m: "the_map service_with_map = Some ?m"
    by (simp add: service_with_map_def svc_defs first_map_def prop_of_def)
  have s: "mapSettings service_with_map = defaultMapSettings \<and>
           map_id ?m = 0 \<and> center ?m = default_location \<and>
           map_option latlng (userLocation service_with_map) = Some default_location \<and>
           markers_created service_with_map = 1 \<and> console service_with_map = [] \<and>
           Leaflet_throws service_with_map = Leaflet_checks"
    by (simp add: service_with_map_def svc_defs first_map_def default_location_def prop_of_def)
  have z: "prop_of (mapSettings service_with_map) ''zoom'' = JNum (Fin 19)"
    by (simp add: s prop_of_def defaultMapSettings_def own_prop_def)
  have c: "coordinates paris = JArr [JNum (Fin 48.85), JNum (Fin 2.35)] []"
    "lat paris = Fin 48.85" "lng paris = Fin 2.35"
    by (simp_all add: coordinates_def paris_def)
  have u: "usable_latlng (coordinates paris)" "\<not> usable_latlng (coordinates ?nan)"
    by (simp_all add: coordinates_def paris_def usable_latlng_def finite_number_def)
  have v: "has_view ?m"
    by (simp add: new_MapService_no_entry)
  have f: "finite_number (JNum (Fin 19))"
    by (simp add: finite_number_def)
  have t: "\<not> Leaflet_throws service_with_map (marker_call service_with_map ?m (coordinates paris))"
    "\<not> Leaflet_throws service_with_map
          (Call_flyTo (marked_map service_with_map ?m) (coordinates paris)
             (prop_of (mapSettings service_with_map) ''zoom''))"
    "Leaflet_throws service_with_map (marker_call service_with_map ?m (coordinates ?nan))"
    using u v f by (simp_all add: s z)
  note p = position_overwrites_location
             [where s = service_with_map and p = paris and storage = Map.empty
                and L = Leaflet_checks and el = "''map''" and x = "48.85" and y = "2.35"]
  note q = position_overwrites_location
             [where s = service_with_map and p = "?nan" and storage = Map.empty
                and L = Leaflet_checks and el = "''map''" and x = 0 and y = 0]
  note r = position_overwrites_location
             [where s = "new_MapService Map.empty" and p = paris and storage = Map.empty
                and L = Leaflet_checks and el = "''map''" and x = "48.85" and y = "2.35"]
  from p o have 1:
    "prop_of (mapSettings (getLocation_next (Some paris) service_with_map)) ''location''
       = coordinates paris"
    by blast
  from p o m t(1,2) have 2:
    "\<exists>m' mk. the_map (getLocation_next (Some paris) service_with_map) = Some m' \<and>
        map_id m' = map_id ?m \<and> container m' = container ?m \<and>
        center m' = coordinates paris \<and>
        view_zoom m' = prop_of (mapSettings service_with_map) ''zoom'' \<and>
        userLocation (getLocation_next (Some paris) service_with_map) = Some mk \<and>
        latlng mk = coordinates paris"
    and 3: "console (getLocation_next (Some paris) service_with_map) = console service_with_map"
    by blast+
  from q o m t(3) have 4:
    "console (getLocation_next (Some ?nan) service_with_map)
       = console service_with_map @ [ConsoleError ''Error fetching geolocation:'']"
    and 5: "map_option center (the_map (getLocation_next (Some ?nan) service_with_map))
              = Some (center ?m)"
    and 6: "userLocation (getLocation_next (Some ?nan) service_with_map)
              = userLocation service_with_map"
    by blast+
  have n: "is_object (mapSettings (new_MapService Map.empty))"
    "the_map (new_MapService Map.empty) = None" "console (new_MapService Map.empty) = []"
    "(new_MapService Map.empty)\<lparr>Leaflet_throws := Leaflet_checks\<rparr> = new_MapService Map.empty"
    by (simp_all add: new_MapService_no_entry)
  from r n(1,2) have 7:
    "the_map (getLocation_next (Some paris) (new_MapService Map.empty)) = None"
    and 8: "console (getLocation_next (Some paris) (new_MapService Map.empty))
              = console (new_MapService Map.empty) @ [ConsoleWarn ''Map not initialized'']"
    by blast+
  from r c(2,3) have 9:
    "\<exists>m. returned (getMap (Some ''map'') (getLocation_next (Some paris) (new_MapService Map.empty)))
            = Some (Some m) \<and> center m = coordinates paris"
    and 10:
    "\<exists>m. the_map (getLocation_next (Some paris)
             (state_of (getMap (Some ''map'') (new_MapService Map.empty))))
            = Some m \<and> center m = coordinates paris"
    unfolding n(4) by auto
  have e: "localStorage (getLocation_next (Some paris) service_with_map) ''mapSettings''
     = Some (JSONText (JObj [(''location'', JArr [JNum (Fin 48.85), JNum (Fin 2.35)] []),
                             (''zoom'', JNum (Fin 19))])) \<and>
     markers_created (getLocation_next (Some paris) service_with_map) = 1"
    by (simp add: service_with_map_def paris_def svc_defs default_location_def prop_of_def
          List.map_filter_simps)
  from o m s z c t 1 2 3 4 5 6 n(2,3) 7 8 9 10 e show ?thesis
    by auto
qed

text \<open>
  Against claim C1 as it is stated: on a service that has just been constructed,
  with no stored settings and no map yet, a reported position leaves the service without
  a marker. The marker is neither made nor moved; a warning is logged.
\<close>

theorem position_without_map_leaves_marker:
  "is_object (mapSettings (new_MapService Map.empty)) \<and>
   userLocation (getLocation_next (Some \<lparr>lat = Fin 48.85, lng = Fin 2.35\<rparr>)
      (new_MapService Map.empty)) = None \<and>
   the_map (getLocation_next (Some \<lparr>lat = Fin 48.85, lng = Fin 2.35\<rparr>)
      (new_MapService Map.empty)) = None \<and>
   console (getLocation_next (Some \<lparr>lat = Fin 48.85, lng = Fin 2.35\<rparr>)
      (new_MapService Map.empty)) = [ConsoleWarn ''Map not initialized'']"
  by (simp add: svc_defs is_object_def)

section \<open>No position from the geolocation service\<close>

text \<open>
  Claim C3, as the code has it. When the geolocation service reports \<^verbatim>\<open>null\<close> or
  fails, a location that the settings hold (a truthy value) reads the same after the
  callback as before it; settings that are an object and hold no location get the
  hard-coded default location. In particular, with no stored settings the view is centred
  on the hard-coded default location, whether the callback runs before \<^verbatim>\<open>getMap\<close>
  builds the map or after.
\<close>

theorem no_position_keeps_or_defaults:
  "(\<forall>loc. js_get (mapSettings s) ''location'' = Inr loc \<and> truthy loc \<longrightarrow>
      js_get (mapSettings (getLocation_next None s)) ''location'' = Inr loc \<and>
      js_get (mapSettings (getLocation_error err s)) ''location'' = Inr loc) \<and>
   (is_object (mapSettings s) \<and> \<not> truthy (prop_of (mapSettings s) ''location'') \<longrightarrow>
      js_get (mapSettings (getLocation_next None s)) ''location'' = Inr default_location \<and>
      js_get (mapSettings (getLocation_error err s)) ''location'' = Inr default_location) \<and>
   (storage ''mapSettings'' = None \<longrightarrow>
      (\<exists>m. returned (getMap (Some el) (getLocation_next None (new_MapService storage)))
              = Some (Some m) \<and> center m = default_location) \<and>
      (\<exists>m. the_map (getLocation_next None (state_of (getMap (Some el) (new_MapService storage))))
              = Some m \<and> center m = default_location))"
proof (intro conjI impI allI)
  fix loc
  assume a: "js_get (mapSettings s) ''location'' = Inr loc \<and> truthy loc"
  show "js_get (mapSettings (getLocation_next None s)) ''location'' = Inr loc"
    using a by (blast intro: no_position_truthy(1))
  show "js_get (mapSettings (getLocation_error err s)) ''location'' = Inr loc"
    using a by (blast intro: no_position_truthy(2))
next
  assume a: "is_object (mapSettings s) \<and> \<not> truthy (prop_of (mapSettings s) ''location'')"
  show "js_get (mapSettings (getLocation_next None s)) ''location'' = Inr default_location"
    using a by (blast intro: no_position_falsy(1))
  show "js_get (mapSettings (getLocation_error err s)) ''location'' = Inr default_location"
    using a by (blast intro: no_position_falsy(2))
next
  assume n: "storage ''mapSettings'' = None"
  show "\<exists>m. returned (getMap (Some el) (getLocation_next None (new_MapService storage)))
              = Some (Some m) \<and> center m = default_location"
    using n by (rule no_position_then_getMap)
  show "\<exists>m. the_map (getLocation_next None (state_of (getMap (Some el) (new_MapService storage))))
              = Some m \<and> center m = default_location"
    using n by (rule getMap_then_no_position)
qed

text \<open>
  A witness: stored settings with a location, which the callback keeps; stored settings
  without one, which get the default; and no stored settings at all.
\<close>

theorem no_position_keeps_or_defaults_witness:
  "js_get (mapSettings (new_MapService [''mapSettings'' \<mapsto>
       JSONText (JObj [(''location'', JArr [JNum (Fin 52.52), JNum (Fin 13.4)] []),
                       (''zoom'', JNum (Fin 12))])])) ''location''
     = Inr (JArr [JNum (Fin 52.52), JNum (Fin 13.4)] []) \<and>
   truthy (JArr [JNum (Fin 52.52), JNum (Fin 13.4)] []) \<and>
   js_get (mapSettings (getLocation_next None (new_MapService [''mapSettings'' \<mapsto>
       JSONText (JObj [(''location'', JArr [JNum (Fin 52.52), JNum (Fin 13.4)] []),
                       (''zoom'', JNum (Fin 12))])]))) ''location''
     = Inr (JArr [JNum (Fin 52.52), JNum (Fin 13.4)] []) \<and>
   js_get (mapSettings (getLocation_error (Other ''denied'') (new_MapService [''mapSettings'' \<mapsto>
       JSONText (JObj [(''location'', JArr [JNum (Fin 52.52), JNum (Fin 13.4)] []),
                       (''zoom'', JNum (Fin 12))])]))) ''location''
     = Inr (JArr [JNum (Fin 52.52), JNum (Fin 13.4)] []) \<and>
   is_object (mapSettings (new_MapService [''mapSettings'' \<mapsto> JSONText (JObj [])])) \<and>
   \<not> truthy (prop_of (mapSettings (new_MapService [''mapSettings'' \<mapsto> JSONText (JObj [])]))
                ''location'') \<and>
   js_get (mapSettings (getLocation_error (Other ''denied'')
       (new_MapService [''mapSettings'' \<mapsto> JSONText (JObj [])]))) ''location''
     = Inr (JArr [JNum (Fin 31.25271960741618), JNum (Fin 100.70475680715587)] []) \<and>
   (Map.empty :: string \<rightharpoonup> stored_text) ''mapSettings'' = None \<and>
   map_option (map_option center)
       (returned (getMap (Some ''map'') (getLocation_next None (new_MapService Map.empty))))
     = Some (Some (JArr [JNum (Fin 31.25271960741618), JNum (Fin 100.70475680715587)] []))"
proof -
  let ?s = "new_MapService [''mapSettings'' \<mapsto>
       JSONText (JObj [(''location'', JArr [JNum (Fin 52.52), JNum (Fin 13.4)] []),
                       (''zoom'', JNum (Fin 12))])]"
  have l: "js_get (mapSettings ?s) ''location'' = Inr (JArr [JNum (Fin 52.52), JNum (Fin 13.4)] [])"
    by (simp add: new_MapService_def initializeMapSettings_def own_prop_def)
  have t: "truthy (JArr [JNum (Fin 52.52), JNum (Fin 13.4)] [])" by simp
  from no_position_keeps_or_defaults [of ?s "Other ''denied''" Map.empty "''map''"] l t
  have k: "js_get (mapSettings (getLocation_next None ?s)) ''location''
          = Inr (JArr [JNum (Fin 52.52), JNum (Fin 13.4)] [])"
    "js_get (mapSettings (getLocation_error (Other ''denied'') ?s)) ''location''
          = Inr (JArr [JNum (Fin 52.52), JNum (Fin 13.4)] [])"
    by blast+
  have e: "is_object (mapSettings (new_MapService [''mapSettings'' \<mapsto> JSONText (JObj [])])) \<and>
   \<not> truthy (prop_of (mapSettings (new_MapService [''mapSettings'' \<mapsto> JSONText (JObj [])]))
                ''location'') \<and>
   js_get (mapSettings (getLocation_error (Other ''denied'')
       (new_MapService [''mapSettings'' \<mapsto> JSONText (JObj [])]))) ''location''
     = Inr (JArr [JNum (Fin 31.25271960741618), JNum (Fin 100.70475680715587)] []) \<and>
   map_option (map_option center)
       (returned (getMap (Some ''map'') (getLocation_next None (new_MapService Map.empty))))
     = Some (Some (JArr [JNum (Fin 31.25271960741618), JNum (Fin 100.70475680715587)] []))"
    by (simp add: svc_defs is_object_def prop_of_def)
  from l t k e show ?thesis by simp
qed

text \<open>
  Against claim C3 as it is stated: with the stored settings \<^verbatim>\<open>{"zoom":12}\<close> the
  settings hold no location before the callback, and after a \<^verbatim>\<open>null\<close> result they
  hold the hard-coded default location. The location after is not the location before.
\<close>

theorem no_position_sets_missing_location:
  "js_get (mapSettings (new_MapService [''mapSettings'' \<mapsto>
       JSONText (JObj [(''zoom'', JNum (Fin 12))])])) ''location'' = Inr JUndefined \<and>
   js_get (mapSettings (getLocation_next None (new_MapService [''mapSettings'' \<mapsto>
       JSONText (JObj [(''zoom'', JNum (Fin 12))])]))) ''location''
     = Inr (JArr [JNum (Fin 31.25271960741618), JNum (Fin 100.70475680715587)] []) \<and>
   JArr [JNum (Fin 31.25271960741618), JNum (Fin 100.70475680715587)] [] \<noteq> JUndefined"
  by (simp add: svc_defs)

section \<open>Stored settings that parse to null\<close>

text \<open>
  What the constructor leaves as the settings, for every content of the storage entry, and
  that no call and no answer of the geolocation service makes settings \<^verbatim>\<open>null\<close> or
  makes \<^verbatim>\<open>null\<close> settings anything else.
\<close>

lemma settings_after_construction:
  "mapSettings (new_MapService storage) =
     (case storage ''mapSettings'' of
        None \<Rightarrow> defaultMapSettings
      | Some (NotJSON s) \<Rightarrow> defaultMapSettings
      | Some (JSONText v) \<Rightarrow> v)"
  by (simp add: new_MapService_def initializeMapSettings_def console_error_def
        split: option.splits stored_text.splits)

lemma js_set_not_nullish: "js_set v k x = Inr v' \<Longrightarrow> \<not> nullish v'"
  by (cases v) (auto simp: nullish_def)

lemma nullish_useStored:
  "nullish (mapSettings (state_of (useStoredOrDefaultLocation s))) = nullish (mapSettings s)"
  by (cases "mapSettings s")
     (auto simp: useStoredOrDefaultLocation_def nullish_def split: sum.splits)

lemma nullish_on_error: "nullish (mapSettings (on_error err s)) = nullish (mapSettings s)"
  using nullish_useStored [of "console_error ''Error fetching geolocation:'' s"]
  by (auto simp: on_error_def split: outcome.splits)

lemma nullish_on_position:
  "nullish (mapSettings (state_of (on_position position s))) = nullish (mapSettings s)"
proof (cases position)
  case None
  then show ?thesis
    using nullish_useStored
            [of "console_warn ''No position available, using stored or default settings'' s"]
    by (simp add: on_position_def)
next
  case (Some p)
  then show ?thesis
    by (cases "mapSettings s") (auto simp: on_position_def nullish_def)
qed

lemma nullish_getLocation_next:
  "nullish (mapSettings (getLocation_next position s)) = nullish (mapSettings s)"
  using nullish_on_position [of position s]
  by (auto simp: getLocation_next_def nullish_on_error split: outcome.splits)

lemma mapSettings_renderMap: "mapSettings (state_of (renderMap el s)) = mapSettings s"
  by (auto simp: renderMap_def split: option.splits sum.splits)

lemma mapSettings_getMap: "mapSettings (state_of (getMap el s)) = mapSettings s"
  using mapSettings_renderMap [of el s]
  by (auto simp: getMap_def split: option.splits outcome.splits)

lemma mapSettings_renderGeoJson: "mapSettings (state_of (renderGeoJson data s)) = mapSettings s"
  by (auto simp: renderGeoJson_def split: option.splits sum.splits)

lemma nullish_exec: "nullish (mapSettings (exec c s)) = nullish (mapSettings s)"
  by (cases c)
     (simp_all add: nullish_getLocation_next getLocation_error_def nullish_on_error
        mapSettings_getMap mapSettings_renderGeoJson)

lemma nullish_run: "nullish (mapSettings (run cs s)) = nullish (mapSettings s)"
  unfolding run_def by (induction cs arbitrary: s) (simp_all add: nullish_exec)

text \<open>
  Claim C2 at the stored text \<^verbatim>\<open>null\<close>. The text is truthy and \<^verbatim>\<open>JSON.parse\<close>
  accepts it, so the constructor leaves the settings \<^verbatim>\<open>null\<close>. \<^verbatim>\<open>getMap\<close> then
  throws a TypeError where it reads the location, and so does the geolocation callback,
  in \<^verbatim>\<open>map\<close> and again in \<^verbatim>\<open>catchError\<close>; the settings stay \<^verbatim>\<open>null\<close>.
\<close>

theorem stored_null_gives_null_settings:
  "mapSettings (new_MapService [''mapSettings'' \<mapsto> JSONText JNull]) = JNull \<and>
   getMap (Some ''map'') (new_MapService [''mapSettings'' \<mapsto> JSONText JNull])
     = Throws TypeError (new_MapService [''mapSettings'' \<mapsto> JSONText JNull]) \<and>
   mapSettings (getLocation_next (Some \<lparr>lat = Fin 48.85, lng = Fin 2.35\<rparr>)
      (new_MapService [''mapSettings'' \<mapsto> JSONText JNull])) = JNull \<and>
   unhandled (getLocation_next (Some \<lparr>lat = Fin 48.85, lng = Fin 2.35\<rparr>)
      (new_MapService [''mapSettings'' \<mapsto> JSONText JNull])) = [TypeError]"
  by (simp add: svc_defs)

section \<open>One map for the page\<close>

lemma one_map_new: "one_map ((new_MapService storage)\<lparr>Leaflet_throws := L\<rparr>)"
  by (simp add: one_map_def new_MapService_def initializeMapSettings_def console_error_def
        split: option.splits sum.splits)

lemma one_map_console [simp]:
  "one_map (console_warn msg s) = one_map s" "one_map (console_error msg s) = one_map s"
  by (simp_all add: one_map_def console_warn_def console_error_def split: option.splits)

lemma one_map_renderLocationMarker:
  "one_map s \<Longrightarrow> one_map (state_of (renderLocationMarker s))"
  by (auto simp: renderLocationMarker_def one_map_def console_warn_def flyTo_def addTo_def
        split: option.splits sum.splits)

lemma one_map_useStored:
  "one_map s \<Longrightarrow> one_map (state_of (useStoredOrDefaultLocation s))"
  by (auto simp: useStoredOrDefaultLocation_def one_map_def split: option.splits sum.splits)

lemma one_map_unhandled [simp]: "one_map (s\<lparr>unhandled := es\<rparr>) = one_map s"
  by (simp add: one_map_def split: option.splits)

lemma one_map_on_error: "one_map s \<Longrightarrow> one_map (on_error err s)"
  using one_map_useStored [of "console_error ''Error fetching geolocation:'' s"]
  by (auto simp: on_error_def split: outcome.splits)

lemma one_map_on_position: "one_map s \<Longrightarrow> one_map (state_of (on_position position s))"
proof (cases position)
  case None
  then show "one_map s \<Longrightarrow> ?thesis"
    using one_map_useStored
            [of "console_warn ''No position available, using stored or default settings'' s"]
    by (simp add: on_position_def)
next
  case (Some p)
  show "one_map s \<Longrightarrow> ?thesis"
  proof (cases "js_set (mapSettings s) ''location'' (JArr [JNum (lat p), JNum (lng p)] [])")
    case (Inl e)
    then show "one_map s \<Longrightarrow> ?thesis" by (simp add: on_position_def Some)
  next
    case (Inr ms)
    assume "one_map s"
    then have "one_map (saveMapSettings (s\<lparr>mapSettings := ms\<rparr>))"
      by (simp add: one_map_def saveMapSettings_def split: option.splits)
    then show ?thesis
      by (simp add: on_position_def Some Inr one_map_renderLocationMarker)
  qed
qed

lemma one_map_getLocation_next: "one_map s \<Longrightarrow> one_map (getLocation_next position s)"
  using one_map_on_position [of s position]
  by (auto simp: getLocation_next_def one_map_on_error split: outcome.splits)

lemma one_map_getMap: "one_map s \<Longrightarrow> one_map (state_of (getMap el s))"
proof (cases "the_map s")
  case (Some m)
  then show "one_map s \<Longrightarrow> ?thesis" by (simp add: getMap_def)
next
  case None
  assume i: "one_map s"
  have r: "one_map (state_of (renderMap el s))"
  proof (cases el)
    case None
    then show ?thesis using i by (simp add: renderMap_def)
  next
    case (Some e)
    have "one_map (s\<lparr>the_map := Some (addTo (TileLayerOn tileLayer) (L_map (maps_created s) e c z)),
                      maps_created := Suc (maps_created s)\<rparr>)" for c z
      using i None by (simp add: one_map_def addTo_def L_map_def split: option.splits)
    then show ?thesis
      by (auto simp: renderMap_def Some i one_map_renderLocationMarker split: sum.splits)
  qed
  show ?thesis
    using r None by (auto simp: getMap_def split: outcome.splits)
qed

lemma one_map_renderGeoJson: "one_map s \<Longrightarrow> one_map (state_of (renderGeoJson data s))"
  by (auto simp: renderGeoJson_def one_map_def addTo_def console_warn_def
        split: option.splits sum.splits)

lemma one_map_exec: "one_map s \<Longrightarrow> one_map (exec c s)"
  by (cases c)
     (simp_all add: one_map_getMap one_map_getLocation_next one_map_on_error getLocation_error_def
        one_map_renderGeoJson)

lemma one_map_run: "one_map s \<Longrightarrow> one_map (run cs s)"
  unfolding run_def by (induction cs arbitrary: s) (simp_all add: one_map_exec)

lemma one_map_maps_created: "one_map s \<Longrightarrow> maps_created s \<le> 1"
  by (auto simp: one_map_def split: option.splits)

text \<open>
  What holds of \<^verbatim>\<open>getMap\<close> in every state that the service reaches from its
  construction, by any calls of \<^verbatim>\<open>getMap\<close> and \<^verbatim>\<open>renderGeoJson\<close> and any answers
  of the geolocation service, whatever Leaflet throws on: at most one map has been
  constructed; if the service has a map, \<^verbatim>\<open>getMap\<close> returns that map and changes
  nothing; if it has none and the element is absent, \<^verbatim>\<open>getMap\<close> logs an error,
  returns \<^verbatim>\<open>undefined\<close> and constructs nothing. If it has none and the element is
  there, \<^verbatim>\<open>getMap\<close> constructs the one map on that element, centred and zoomed as the
  settings say, with the tile layer and the location marker at the centre on it, and
  returns it, provided that the settings are not \<^verbatim>\<open>null\<close> and that Leaflet takes the
  three calls.
\<close>

lemma getMap_in_reachable_states:
  assumes "s = run cs ((new_MapService storage)\<lparr>Leaflet_throws := L\<rparr>)"
  shows "maps_created s \<le> 1"
    and "the_map s = Some m \<Longrightarrow> getMap element s = Returns (Some m) s"
    and "the_map s = None \<Longrightarrow>
           getMap None s = Returns None (console_error ''Map element not found'' s)"
    and "the_map s = None \<Longrightarrow> \<not> nullish (mapSettings s) \<Longrightarrow>
         \<not> Leaflet_throws s (Call_map el (prop_of (mapSettings s) ''location'')
                                (prop_of (mapSettings s) ''zoom'')) \<Longrightarrow>
         \<not> Leaflet_throws s
              (Call_marker (prop_of (mapSettings s) ''location'')
                 (addTo (TileLayerOn tileLayer)
                    (L_map 0 el (prop_of (mapSettings s) ''location'')
                       (prop_of (mapSettings s) ''zoom'')))) \<Longrightarrow>
         \<not> Leaflet_throws s
              (Call_flyTo
                 (addTo MarkerOn (addTo (TileLayerOn tileLayer)
                    (L_map 0 el (prop_of (mapSettings s) ''location'')
                       (prop_of (mapSettings s) ''zoom''))))
                 (prop_of (mapSettings s) ''location'') (prop_of (mapSettings s) ''zoom'')) \<Longrightarrow>
         \<exists>m s'. getMap (Some el) s = Returns (Some m) s' \<and>
           the_map s' = Some m \<and> maps_created s' = 1 \<and> container m = el \<and>
           center m = prop_of (mapSettings s) ''location'' \<and>
           view_zoom m = prop_of (mapSettings s) ''zoom'' \<and>
           layers m = [TileLayerOn tileLayer, MarkerOn] \<and>
           userLocation s' = Some (L_marker (prop_of (mapSettings s) ''location'') markerOptions) \<and>
           mapSettings s' = mapSettings s"
proof -
  have i: "one_map s" unfolding assms by (simp add: one_map_run one_map_new)
  show "maps_created s \<le> 1" using i by (rule one_map_maps_created)
  show "getMap element s = Returns (Some m) s" if "the_map s = Some m"
    using that by (rule getMap_existing)
  show "getMap None s = Returns None (console_error ''Map element not found'' s)"
    if "the_map s = None"
    using that by (rule getMap_no_element)
  show "\<exists>m s'. getMap (Some el) s = Returns (Some m) s' \<and>
           the_map s' = Some m \<and> maps_created s' = 1 \<and> container m = el \<and>
           center m = prop_of (mapSettings s) ''location'' \<and>
           view_zoom m = prop_of (mapSettings s) ''zoom'' \<and>
           layers m = [TileLayerOn tileLayer, MarkerOn] \<and>
           userLocation s' = Some (L_marker (prop_of (mapSettings s) ''location'') markerOptions) \<and>
           mapSettings s' = mapSettings s"
    if m: "the_map s = None" and n: "\<not> nullish (mapSettings s)"
      and t1: "\<not> Leaflet_throws s (Call_map el (prop_of (mapSettings s) ''location'')
                                (prop_of (mapSettings s) ''zoom''))"
      and t2: "\<not> Leaflet_throws s
              (Call_marker (prop_of (mapSettings s) ''location'')
                 (addTo (TileLayerOn tileLayer)
                    (L_map 0 el (prop_of (mapSettings s) ''location'')
                       (prop_of (mapSettings s) ''zoom''))))"
      and t3: "\<not> Leaflet_throws s
              (Call_flyTo
                 (addTo MarkerOn (addTo (TileLayerOn tileLayer)
                    (L_map 0 el (prop_of (mapSettings s) ''location'')
                       (prop_of (mapSettings s) ''zoom''))))
                 (prop_of (mapSettings s) ''location'') (prop_of (mapSettings s) ''zoom''))"
  proof -
    from i m have u: "userLocation s = None" and c: "maps_created s = 0"
      by (simp_all add: one_map_def)
    have "getMap (Some el) s =
     Returns (Some (first_map s el))
       (s\<lparr>the_map := Some (first_map s el),
          maps_created := Suc (maps_created s),
          userLocation :=
            (case userLocation s of
               None \<Rightarrow> Some (L_marker (prop_of (mapSettings s) ''location'') markerOptions)
             | Some mk \<Rightarrow> Some (setLatLng (prop_of (mapSettings s) ''location'') mk)),
          markers_created :=
            (case userLocation s of None \<Rightarrow> Suc (markers_created s)
             | Some mk \<Rightarrow> markers_created s)\<rparr>)"
      using t1 t2 t3
      by (intro getMap_constructs [OF m n]) (simp_all add: marker_call_def marked_map_def u c)
    then show ?thesis
      by (simp add: first_map_def u c)
  qed
qed

text \<open>
  Claim C6 at the stored text \<^verbatim>\<open>null\<close>, the defect of claim C2: the constructor
  leaves the settings \<^verbatim>\<open>null\<close>, and \<^verbatim>\<open>getMap\<close>, called with the element on a
  service that has no map, throws a TypeError where \<^verbatim>\<open>renderMap\<close> reads the location
  of the settings. It returns no map handle and constructs no map, on the first call and
  on every later one, also after the geolocation service has reported a position.
\<close>

theorem getMap_throws_on_null_settings:
  "the_map (new_MapService [''mapSettings'' \<mapsto> JSONText JNull]) = None \<and>
   returned (getMap (Some ''map'') (new_MapService [''mapSettings'' \<mapsto> JSONText JNull])) = None \<and>
   state_of (getMap (Some ''map'') (new_MapService [''mapSettings'' \<mapsto> JSONText JNull]))
     = new_MapService [''mapSettings'' \<mapsto> JSONText JNull] \<and>
   the_map (run [GetMap (Some ''map''), GetMap (Some ''map'')]
              (new_MapService [''mapSettings'' \<mapsto> JSONText JNull])) = None \<and>
   maps_created (run [GetMap (Some ''map''), GetMap (Some ''map'')]
                   (new_MapService [''mapSettings'' \<mapsto> JSONText JNull])) = 0 \<and>
   console (run [GetMap (Some ''map''), GetMap (Some ''map'')]
              (new_MapService [''mapSettings'' \<mapsto> JSONText JNull])) = [] \<and>
   getMap (Some ''map'')
       (run [GeolocationNext (Some paris)] (new_MapService [''mapSettings'' \<mapsto> JSONText JNull]))
     = Throws TypeError
         (run [GeolocationNext (Some paris)] (new_MapService [''mapSettings'' \<mapsto> JSONText JNull])) \<and>
   the_map (run [GeolocationNext (Some paris), GetMap (Some ''map'')]
              (new_MapService [''mapSettings'' \<mapsto> JSONText JNull])) = None \<and>
   maps_created (run [GeolocationNext (Some paris), GetMap (Some ''map'')]
                   (new_MapService [''mapSettings'' \<mapsto> JSONText JNull])) = 0"
  by (simp add: run_def svc_defs paris_def)

section \<open>The style of a GeoJSON overlay\<close>

text \<open>
  Claim C5 at a feature collection of two features with different style overrides.
  \<^verbatim>\<open>renderGeoJson\<close> calls \<^verbatim>\<open>getStyles\<close> once, on the collection, and gives the
  object it returns as the \<^verbatim>\<open>style\<close> option of the layer; Leaflet applies a style
  option that is an object to every feature of the layer. The collection has no
  \<^verbatim>\<open>properties\<close>, so that object is the default style, for both features, although
  \<^verbatim>\<open>getStyles\<close> of either feature is a different style.
\<close>

theorem renderGeoJson_one_style_for_all:
  "map_option layers
     (the_map (state_of (renderGeoJson two_styled_features
        (state_of (getMap (Some ''map'') (new_MapService Map.empty))))))
     = Some [TileLayerOn tileLayer, MarkerOn, GeoJSONOn two_styled_features defaultStyle] \<and>
   getStyles (JObj [(''type'', JStr ''Feature''),
                    (''properties'', JObj [(''style'', JObj [(''fill'', JStr ''red'')])])])
     = Inr (JObj [(''fillColor'', JStr ''red''), (''weight'', JNum (Fin 2)),
                  (''color'', JStr ''black''), (''fillOpacity'', JNum (Fin 0.7)),
                  (''dashArray'', JStr '''')]) \<and>
   getStyles (JObj [(''type'', JStr ''Feature''),
                    (''properties'', JObj [(''style'', JObj [(''fill'', JStr ''blue'')])])])
     = Inr (JObj [(''fillColor'', JStr ''blue''), (''weight'', JNum (Fin 2)),
                  (''color'', JStr ''black''), (''fillOpacity'', JNum (Fin 0.7)),
                  (''dashArray'', JStr '''')])"
  by (simp add: two_styled_features_def svc_defs renderGeoJson_def getStyles_def bind_get_def
        js_get_opt_def nullish_def js_or_def defaultStyle_def)

section \<open>The page: the 3D overlay and its buttons\<close>

lemmas page_defs = new_MapPage_def ngAfterViewInit_def after_loadScript_def loadScript_def
  initializeOSMBuildings_def render3D_def render2D_def toggleUI_def script_src_def
  new_OSMBuildings_def load_def osmbSettings_def

lemma initializeOSMBuildings_active:
  "osmb p = Some ov \<Longrightarrow> initializeOSMBuildings p = Returns () p"
  by (simp add: initializeOSMBuildings_def)

lemma render3D_active:
  "osmb p = Some ov \<Longrightarrow>
   render3D event p = Returns () (p\<lparr>active := insert (target event) (active p - set (buttons p))\<rparr>)"
  by (simp add: render3D_def initializeOSMBuildings_active toggleUI_def)

lemma render3D_cases:
  "(osmb p \<noteq> None \<and> osmb (state_of (render3D event p)) = osmb p \<and>
      overlays_created (state_of (render3D event p)) = overlays_created p) \<or>
   (osmb p = None \<and> \<not> OSMBuildings_defined p \<and> state_of (render3D event p) = p) \<or>
   (osmb p = None \<and> OSMBuildings_defined p \<and> osmb (state_of (render3D event p)) \<noteq> None \<and>
      overlays_created (state_of (render3D event p)) = Suc (overlays_created p))"
  by (cases "osmb p") (auto simp: render3D_def initializeOSMBuildings_def toggleUI_def)

text \<open>
  Claim C7. On every page whose 3D overlay is active, \<^verbatim>\<open>render3D\<close> returns and leaves
  the same overlay object in place: none is constructed and none is put on the map. On
  every page at all, a second \<^verbatim>\<open>render3D\<close> in a row leaves the overlay of the first and
  constructs nothing, so that the two together construct at most one overlay.
\<close>

theorem render3D_idempotent:
  "(\<forall>ov. osmb p = Some ov \<longrightarrow>
      returned (render3D event p) = Some () \<and>
      osmb (state_of (render3D event p)) = Some ov \<and>
      overlays_created (state_of (render3D event p)) = overlays_created p \<and>
      overlays_on_map (state_of (render3D event p)) = overlays_on_map p) \<and>
   osmb (state_of (render3D event' (state_of (render3D event p))))
     = osmb (state_of (render3D event p)) \<and>
   overlays_created (state_of (render3D event' (state_of (render3D event p))))
     = overlays_created (state_of (render3D event p)) \<and>
   overlays_created (state_of (render3D event' (state_of (render3D event p))))
     \<le> Suc (overlays_created p)"
proof (intro conjI allI impI)
  fix ov assume a: "osmb p = Some ov"
  show "returned (render3D event p) = Some ()" "osmb (state_of (render3D event p)) = Some ov"
    "overlays_created (state_of (render3D event p)) = overlays_created p"
    "overlays_on_map (state_of (render3D event p)) = overlays_on_map p"
    by (simp_all add: render3D_active [OF a] a)
next
  let ?p1 = "state_of (render3D event p)"
  have d: "OSMBuildings_defined ?p1 = OSMBuildings_defined p"
    by (cases "osmb p") (auto simp: render3D_def initializeOSMBuildings_def toggleUI_def)
  show "osmb (state_of (render3D event' ?p1)) = osmb ?p1"
    using render3D_cases [of p event] render3D_cases [of ?p1 event'] d by auto
  show "overlays_created (state_of (render3D event' ?p1)) = overlays_created ?p1"
    using render3D_cases [of p event] render3D_cases [of ?p1 event'] d by auto
  then show "overlays_created (state_of (render3D event' ?p1)) \<le> Suc (overlays_created p)"
    using render3D_cases [of p event] by auto
qed

lemma loaded_page_osmb:
  "osmb loaded_page =
     Some \<lparr>overlay_id = 0, overlay_map = Some 0, overlay_settings = osmbSettings,
           data_url = Some ''https://{s}.data.osmbuildings.org/0.2/59fcc2e8/tile/{z}/{x}/{y}.json''\<rparr>"
  by (simp add: loaded_page_def page_defs svc_defs)

lemma loaded_page_fields:
  "overlays_created loaded_page = 1" "overlays_on_map loaded_page = {0}"
  "buttons loaded_page = [''button2D'', ''button3D'']" "active loaded_page = {}"
  "map_handle loaded_page = Some 0" "OSMBuildings_defined loaded_page"
  by (simp_all add: loaded_page_def page_defs svc_defs)

text \<open>
  A witness: the page whose script has loaded has its overlay, and \<^verbatim>\<open>render3D\<close>
  leaves it the one overlay.
\<close>

theorem render3D_idempotent_witness:
  "osmb loaded_page \<noteq> None \<and>
   osmb (state_of (render3D \<lparr>target = ''button3D''\<rparr> loaded_page)) = osmb loaded_page \<and>
   overlays_created (state_of (render3D \<lparr>target = ''button3D''\<rparr> loaded_page)) = 1 \<and>
   overlays_on_map (state_of (render3D \<lparr>target = ''button3D''\<rparr> loaded_page)) = {0}"
  using render3D_idempotent [of loaded_page "\<lparr>target = ''button3D''\<rparr>" "\<lparr>target = ''button3D''\<rparr>"]
  by (simp add: loaded_page_osmb loaded_page_fields)

lemma render2D_result:
  "render2D event p =
     Returns ()
       (case osmb p of
          Some ov \<Rightarrow>
            p\<lparr>overlays_on_map := overlays_on_map p - {overlay_id ov}, osmb := None,
              active := insert (target event) (active p - set (buttons p))\<rparr>
        | None \<Rightarrow> p\<lparr>active := insert (target event) (active p - set (buttons p))\<rparr>)"
  by (simp add: render2D_def toggleUI_def split: option.splits)

lemma buttons_render3D [simp]: "buttons (state_of (render3D event p)) = buttons p"
  by (cases "osmb p") (auto simp: render3D_def initializeOSMBuildings_def toggleUI_def)

text \<open>
  Claim C8. On every page, \<^verbatim>\<open>render3D\<close> followed by \<^verbatim>\<open>render2D\<close> leaves no overlay:
  the field is cleared and the overlay that the field referred to is off the map. The
  button that \<^verbatim>\<open>render2D\<close> was invoked on is active and every other button of the
  document is not, the button of \<^verbatim>\<open>render3D\<close> among them. On a page with no overlay,
  \<^verbatim>\<open>render2D\<close> leaves the overlays as they are.
\<close>

theorem render3D_then_render2D:
  "returned (render2D event2 (state_of (render3D event3 p))) = Some () \<and>
   osmb (state_of (render2D event2 (state_of (render3D event3 p)))) = None \<and>
   (\<forall>ov. osmb (state_of (render3D event3 p)) = Some ov \<longrightarrow>
      overlay_id ov \<notin> overlays_on_map (state_of (render2D event2 (state_of (render3D event3 p))))) \<and>
   target event2 \<in> active (state_of (render2D event2 (state_of (render3D event3 p)))) \<and>
   (target event3 \<in> set (buttons p) \<and> target event3 \<noteq> target event2 \<longrightarrow>
      target event3 \<notin> active (state_of (render2D event2 (state_of (render3D event3 p))))) \<and>
   (\<forall>b \<in> set (buttons p). b \<noteq> target event2 \<longrightarrow>
      b \<notin> active (state_of (render2D event2 (state_of (render3D event3 p))))) \<and>
   (osmb p = None \<longrightarrow>
      osmb (state_of (render2D event2 p)) = None \<and>
      overlays_on_map (state_of (render2D event2 p)) = overlays_on_map p \<and>
      overlays_created (state_of (render2D event2 p)) = overlays_created p)"
  by (auto simp: render2D_result split: option.splits)

text \<open>
  A witness: 3D then 2D on the page whose script has loaded, and 2D on the page with no
  overlay.
\<close>

theorem render3D_then_render2D_witness:
  "osmb (state_of (render3D \<lparr>target = ''button3D''\<rparr> loaded_page)) \<noteq> None \<and>
   ''button3D'' \<in> set (buttons loaded_page) \<and> ''button3D'' \<noteq> ''button2D'' \<and>
   osmb (state_of (render2D \<lparr>target = ''button2D''\<rparr>
           (state_of (render3D \<lparr>target = ''button3D''\<rparr> loaded_page)))) = None \<and>
   overlays_on_map (state_of (render2D \<lparr>target = ''button2D''\<rparr>
           (state_of (render3D \<lparr>target = ''button3D''\<rparr> loaded_page)))) = {} \<and>
   active (state_of (render2D \<lparr>target = ''button2D''\<rparr>
           (state_of (render3D \<lparr>target = ''button3D''\<rparr> loaded_page)))) = {''button2D''} \<and>
   osmb failed_page = None \<and>
   osmb (state_of (render2D \<lparr>target = ''button2D''\<rparr> failed_page)) = None \<and>
   overlays_on_map (state_of (render2D \<lparr>target = ''button2D''\<rparr> failed_page)) = {} \<and>
   overlays_created (state_of (render2D \<lparr>target = ''button2D''\<rparr> failed_page)) = 0"
proof -
  have r: "state_of (render3D \<lparr>target = ''button3D''\<rparr> loaded_page)
           = loaded_page\<lparr>active := {''button3D''}\<rparr>"
    by (simp add: render3D_active [OF loaded_page_osmb] loaded_page_fields)
  have o: "osmb (state_of (render3D \<lparr>target = ''button3D''\<rparr> loaded_page))
           = Some \<lparr>overlay_id = 0, overlay_map = Some 0, overlay_settings = osmbSettings,
                   data_url = Some ''https://{s}.data.osmbuildings.org/0.2/59fcc2e8/tile/{z}/{x}/{y}.json''\<rparr>"
    by (simp add: r loaded_page_osmb)
  have b: "''button3D'' \<in> set (buttons loaded_page)" "''button3D'' \<noteq> ''button2D''"
    by (simp_all add: loaded_page_fields)
  have f: "osmb failed_page = None" "overlays_on_map failed_page = {}"
    "overlays_created failed_page = 0"
    by (simp_all add: failed_page_def page_defs svc_defs)
  have a: "active (state_of (render2D \<lparr>target = ''button2D''\<rparr>
           (state_of (render3D \<lparr>target = ''button3D''\<rparr> loaded_page)))) = {''button2D''}"
    "overlays_on_map (state_of (render2D \<lparr>target = ''button2D''\<rparr>
           (state_of (render3D \<lparr>target = ''button3D''\<rparr> loaded_page)))) = {}"
    by (auto simp: r render2D_result loaded_page_osmb loaded_page_fields)
  from render3D_then_render2D
         [of "\<lparr>target = ''button2D''\<rparr>" "\<lparr>target = ''button3D''\<rparr>" loaded_page]
       render3D_then_render2D
         [of "\<lparr>target = ''button2D''\<rparr>" "\<lparr>target = ''button3D''\<rparr>" failed_page]
       o b f a
  show ?thesis by simp
qed

section \<open>The page: a script that fails to load\<close>

lemma after_loadScript_OnError:
  "after_loadScript OnError src p
     = p\<lparr>rejections := rejections p @ [Reason (''Failed to load script: '' @ src)]\<rparr>"
  by (simp add: after_loadScript_def)

text \<open>
  Claim C9 at a script that fails to load. The promise of \<^verbatim>\<open>loadScript\<close> is rejected
  inside the async subscriber, after the \<^verbatim>\<open>try\<close> block of \<^verbatim>\<open>ngAfterViewInit\<close> has
  ended: its \<^verbatim>\<open>catch\<close>, which would log the error, does not run, and the rejection is
  left with no handler. Nothing is written to the console. The rest is as the claim says:
  the page has its map handle, no overlay, and \<^verbatim>\<open>render3D\<close> throws as long as
  \<^verbatim>\<open>OSMBuildings\<close> is not there.
\<close>

theorem script_failure_is_not_logged:
  "console (mapService failed_page) = [] \<and>
   rejections failed_page
     = [Reason ''Failed to load script: https://cdn.osmbuildings.org/OSMBuildings-Leaflet.js''] \<and>
   osmb failed_page = None \<and>
   \<not> OSMBuildings_defined failed_page \<and>
   map_handle failed_page = Some 0 \<and>
   map_option map_id (the_map (mapService failed_page)) = Some 0 \<and>
   render3D \<lparr>target = ''button3D''\<rparr> failed_page = Throws TypeError failed_page"
  by (simp add: failed_page_def page_defs svc_defs)


end
